theory Spec2Isabelle
  imports Complex_Main "HOL-Library.Sublist" "HOL-Library.Log_Nat"
begin

section \<open>Text: the string operations of \<^verbatim>\<open>app.py\<close>\<close>

text \<open>
  A Python \<^verbatim>\<open>str\<close> is modelled as a \<^typ>\<open>string\<close>. The classification of characters
  is the one Python gives to ASCII text: \<^verbatim>\<open>str.isalnum\<close> holds of the ten digits and the
  fifty-two letters, \<^verbatim>\<open>str.lower\<close> maps \<^verbatim>\<open>A..Z\<close> to \<^verbatim>\<open>a..z\<close>, and the whitespace of
  \<^verbatim>\<open>str.split()\<close> and \<^verbatim>\<open>str.strip()\<close> is the blank, the codes 9 to 13 and the codes 28 to 31.
  A character outside ASCII is taken as neither alphanumeric, nor cased, nor whitespace.
\<close>

definition ascii_lowercase :: string where
  "ascii_lowercase = ''abcdefghijklmnopqrstuvwxyz''"

definition ascii_uppercase :: string where
  "ascii_uppercase = ''ABCDEFGHIJKLMNOPQRSTUVWXYZ''"

definition digits :: string where
  "digits = ''0123456789''"

definition isalnum :: "char \<Rightarrow> bool" where
  "isalnum c = (c \<in> set (ascii_lowercase @ ascii_uppercase @ digits))"

definition isspace :: "char \<Rightarrow> bool" where
  "isspace c = (c \<in> set [CHR '' '', CHR 0x09, CHR 0x0A, CHR 0x0B, CHR 0x0C, CHR 0x0D,
                           CHR 0x1C, CHR 0x1D, CHR 0x1E, CHR 0x1F])"

definition lower_char :: "char \<Rightarrow> char" where
  "lower_char c = (case map_of (zip ascii_uppercase ascii_lowercase) c of
                     Some l \<Rightarrow> l | None \<Rightarrow> c)"

text \<open>\<^verbatim>\<open>s.lower()\<close>\<close>

definition lower :: "string \<Rightarrow> string" where
  "lower s = map lower_char s"

text \<open>
  \<^verbatim>\<open>s.split()\<close> with no separator: runs of whitespace separate the words, and no empty
  word is produced. The first argument is the word read so far.
\<close>

fun split_from :: "string \<Rightarrow> string \<Rightarrow> string list" where
  "split_from w [] = (if w = [] then [] else [w])"
| "split_from w (c # cs) =
     (if isspace c then (if w = [] then split_from [] cs else w # split_from [] cs)
      else split_from (w @ [c]) cs)"

definition split :: "string \<Rightarrow> string list" where
  "split s = split_from [] s"

text \<open>\<^verbatim>\<open>" ".join(ws)\<close>\<close>

fun join :: "string list \<Rightarrow> string" where
  "join [] = []"
| "join [w] = w"
| "join (w # ws) = w @ '' '' @ join ws"

text \<open>\<^verbatim>\<open>s.strip()\<close>\<close>

definition strip :: "string \<Rightarrow> string" where
  "strip s = rev (dropWhile isspace (rev (dropWhile isspace s)))"

text \<open>
  \<^verbatim>\<open>needle in hay\<close> on strings: \<open>needle\<close> occurs in \<open>hay\<close> as a contiguous run.
\<close>

fun contains :: "string \<Rightarrow> string \<Rightarrow> bool" where
  "contains needle [] = (needle = [])"
| "contains needle (c # cs) = (prefix needle (c # cs) \<or> contains needle cs)"

text \<open>
  \<^verbatim>\<open>tokenize(text)\<close>. The argument is a string or \<^verbatim>\<open>None\<close>; \<^verbatim>\<open>text or ""\<close> turns
  \<^verbatim>\<open>None\<close> into the empty string.
  \<^verbatim>\<open>
  def tokenize(text):
      return [w for w in ''.join(c if c.isalnum() else ' ' for c in (text or "").lower()).split()
              if len(w) > 1]
  \<close>
\<close>

definition or_empty :: "string option \<Rightarrow> string" where
  "or_empty text = (case text of None \<Rightarrow> [] | Some s \<Rightarrow> s)"

definition tokenize :: "string option \<Rightarrow> string list" where
  "tokenize text =
     filter (\<lambda>w. length w > 1)
       (split (map (\<lambda>c. if isalnum c then c else CHR '' '') (lower (or_empty text))))"

section \<open>Values read from JSON\<close>

text \<open>
  What \<^verbatim>\<open>json.load\<close> returns. An object is the list of its items in the order of the
  \<^verbatim>\<open>dict\<close>; a \<^verbatim>\<open>dict\<close> has no key twice. Numbers are taken as exact.
\<close>

datatype json =
    JNull
  | JBool bool
  | JNum rat
  | JStr string
  | JArr "json list"
  | JObj "(string \<times> json) list"

text \<open>Python's truth value of such a value, as tested by \<^verbatim>\<open>x or []\<close> and \<^verbatim>\<open>if x\<close>.\<close>

fun truthy :: "json \<Rightarrow> bool" where
  "truthy JNull = False"
| "truthy (JBool b) = b"
| "truthy (JNum n) = (n \<noteq> 0)"
| "truthy (JStr s) = (s \<noteq> [])"
| "truthy (JArr xs) = (xs \<noteq> [])"
| "truthy (JObj d) = (d \<noteq> [])"

text \<open>The exceptions that the modelled code can raise by itself.\<close>

datatype py_error = TypeError | AttributeError

text \<open>\<^verbatim>\<open>d.get(k, default)\<close>\<close>

definition get :: "(string \<times> json) list \<Rightarrow> string \<Rightarrow> json \<Rightarrow> json" where
  "get d k dflt = (case map_of d k of Some v \<Rightarrow> v | None \<Rightarrow> dflt)"

text \<open>\<^verbatim>\<open>k.replace("_", " ")\<close>\<close>

definition replace_underscores :: "string \<Rightarrow> string" where
  "replace_underscores k = map (\<lambda>c. if c = CHR ''_'' then CHR '' '' else c) k"

section \<open>Logging\<close>

datatype level = WARNING | ERROR

type_synonym log_record = "level \<times> string"

section \<open>The FAQ loader\<close>

text \<open>
  An entry of \<^verbatim>\<open>FAQ_LIST\<close>: the dictionary with the keys \<^verbatim>\<open>question\<close>, \<^verbatim>\<open>answer\<close> and
  \<^verbatim>\<open>tags\<close> that \<^verbatim>\<open>load_faqs\<close> builds. The loader does not check what the values are.
\<close>

record faq =
  question :: json
  answer :: json
  tags :: json

text \<open>
  The body of the loop over a list: \<^verbatim>\<open>item.get\<close> raises \<^verbatim>\<open>AttributeError\<close> when the item is
  not a dictionary, and nothing in \<^verbatim>\<open>load_faqs\<close> catches it.
\<close>

fun faq_of_item :: "json \<Rightarrow> py_error + faq" where
  "faq_of_item (JObj item) =
     Inr \<lparr>question = get item ''question'' (JStr []),
          answer = get item ''answer'' (JStr []),
          tags = (let t = get item ''tags'' (JArr []) in if truthy t then t else JArr [])\<rparr>"
| "faq_of_item _ = Inl AttributeError"

fun load_items :: "json list \<Rightarrow> faq list \<Rightarrow> py_error + faq list" where
  "load_items [] faqs = Inr faqs"
| "load_items (item # items) faqs =
     (case faq_of_item item of
        Inl e \<Rightarrow> Inl e
      | Inr f \<Rightarrow> load_items items (faqs @ [f]))"

definition faq_of_pair :: "string \<times> json \<Rightarrow> faq" where
  "faq_of_pair kv =
     \<lparr>question = JStr (replace_underscores (fst kv)), answer = snd kv, tags = JArr []\<rparr>"

text \<open>
  \<^verbatim>\<open>load_faqs()\<close>. The argument is what opening and parsing \<^verbatim>\<open>faqs.json\<close> gave: the
  parsed value, or the text of the exception raised by \<^verbatim>\<open>open\<close> or \<^verbatim>\<open>json.load\<close>. The
  result is the returned list (or the exception that escapes) and the records logged.
  \<^verbatim>\<open>
  def load_faqs():
      try:
          with open(FAQ_PATH, "r", encoding="utf-8") as f:
              data = json.load(f)
      except Exception as e:
          logger.error("Failed to load faqs.json: %s", e)
          return []
      faqs = []
      if isinstance(data, list):
          for item in data:
              faqs.append({"question": item.get("question", ""),
                           "answer": item.get("answer", ""),
                           "tags": item.get("tags", []) or []})
      elif isinstance(data, dict):
          for k, v in data.items():
              faqs.append({"question": k.replace("_", " "), "answer": v, "tags": []})
      return faqs
  \<close>
\<close>

definition load_faqs :: "string + json \<Rightarrow> (py_error + faq list) \<times> log_record list" where
  "load_faqs source =
     (case source of
        Inl e \<Rightarrow> (Inr [], [(ERROR, ''Failed to load faqs.json: '' @ e)])
      | Inr data \<Rightarrow>
          (case data of
             JArr items \<Rightarrow> (load_items items [], [])
           | JObj d \<Rightarrow> (Inr (map faq_of_pair d), [])
           | _ \<Rightarrow> (Inr [], [])))"

section \<open>Scores: division and rounding of floating-point numbers\<close>

text \<open>The integer nearest to \<open>y\<close>, a tie going to the even neighbour.\<close>

definition round_half_even :: "rat \<Rightarrow> int" where
  "round_half_even y =
     (let k = \<lfloor>y\<rfloor>; f = y - of_int k
      in if f < 1 / 2 then k else if 1 / 2 < f then k + 1 else if even k then k else k + 1)"

text \<open>
  \<^verbatim>\<open>a / b\<close> on two integers with \<open>0 \<le> a \<le> b\<close> and \<open>0 < b\<close>: the IEEE double nearest to
  the quotient, as a rational number. The quotient is scaled by \<open>2 ^ e\<close> into the
  range of a 53-bit significand and rounded there.
\<close>

definition float_div :: "nat \<Rightarrow> nat \<Rightarrow> rat" where
  "float_div a b =
     (if a = 0 then 0
      else let e1 = 52 + (floorlog 2 b - floorlog 2 a);
               e = (if 2 ^ 52 * b \<le> a * 2 ^ e1 then e1 else e1 + 1)
           in of_int (round_half_even (of_nat (a * 2 ^ e) / of_nat b)) / 2 ^ e)"

text \<open>
  \<^verbatim>\<open>round(x, 3)\<close> on a double \<open>x\<close>: the multiple of one thousandth nearest to the exact
  value of \<open>x\<close>, a tie going to the even multiple. Python returns the double that prints
  as this decimal; the model keeps the decimal.
\<close>

definition round3 :: "rat \<Rightarrow> rat" where
  "round3 x = of_int (round_half_even (1000 * x)) / 1000"

text \<open>The default \<^verbatim>\<open>threshold=0.3\<close>: the literal denotes the double nearest to \<open>3/10\<close>.\<close>

definition default_threshold :: rat where
  "default_threshold = float_div 3 10"

section \<open>The FAQ matcher\<close>

text \<open>\<^verbatim>\<open>" ".join(tags)\<close> on whatever value the entry holds under \<^verbatim>\<open>tags\<close>.\<close>

fun strs_of :: "json list \<Rightarrow> py_error + string list" where
  "strs_of [] = Inr []"
| "strs_of (JStr s # xs) = (case strs_of xs of Inl e \<Rightarrow> Inl e | Inr ss \<Rightarrow> Inr (s # ss))"
| "strs_of (_ # xs) = Inl TypeError"

fun join_tags :: "json \<Rightarrow> py_error + string" where
  "join_tags (JArr xs) = (case strs_of xs of Inl e \<Rightarrow> Inl e | Inr ss \<Rightarrow> Inr (join ss))"
| "join_tags (JStr s) = Inr (join (map (\<lambda>c. [c]) s))"
| "join_tags (JObj d) = Inr (join (map fst d))"
| "join_tags _ = Inl TypeError"

text \<open>
  \<^verbatim>\<open>faq.get("question", "") + " " + faq.get("answer", "") + " " + " ".join(faq.get("tags", []))\<close>:
  \<^verbatim>\<open>+\<close> raises \<^verbatim>\<open>TypeError\<close> unless both sides are strings.
\<close>

definition combined :: "faq \<Rightarrow> py_error + string" where
  "combined f =
     (case question f of
        JStr q \<Rightarrow>
          (case answer f of
             JStr a \<Rightarrow>
               (case join_tags (tags f) of
                  Inl e \<Rightarrow> Inl e
                | Inr t \<Rightarrow> Inr (q @ '' '' @ a @ '' '' @ t))
           | _ \<Rightarrow> Inl TypeError)
      | _ \<Rightarrow> Inl TypeError)"

text \<open>\<^verbatim>\<open>len(q_tokens & tokens) / max(1, len(tokens))\<close>\<close>

definition score :: "string set \<Rightarrow> string set \<Rightarrow> rat" where
  "score q_tokens tokens = float_div (card (q_tokens \<inter> tokens)) (max 1 (card tokens))"

text \<open>
  The loop of \<^verbatim>\<open>find_relevant_faq\<close> over \<^verbatim>\<open>FAQ_LIST\<close>; the last argument is
  \<^verbatim>\<open>(best_score, best_faq)\<close>.
\<close>

fun faq_loop ::
  "string set \<Rightarrow> faq list \<Rightarrow> rat \<times> faq option \<Rightarrow> py_error + (rat \<times> faq option)" where
  "faq_loop q_tokens [] best = Inr best"
| "faq_loop q_tokens (f # faqs) (best_score, best_faq) =
     (case combined f of
        Inl e \<Rightarrow> Inl e
      | Inr text \<Rightarrow>
          (let tokens = set (tokenize (Some text))
           in if tokens = {} then faq_loop q_tokens faqs (best_score, best_faq)
              else if score q_tokens tokens > best_score
                   then faq_loop q_tokens faqs (score q_tokens tokens, Some f)
                   else faq_loop q_tokens faqs (best_score, best_faq)))"

text \<open>
  \<^verbatim>\<open>
  def find_relevant_faq(query, threshold=0.3):
      q_tokens = set(tokenize(query))
      if not q_tokens:
          return None, 0.0
      best_score = 0.0
      best_faq = None
      for faq in FAQ_LIST:
          combined = (faq.get("question", "") + " " + faq.get("answer", "") + " "
                      + " ".join(faq.get("tags", [])))
          tokens = set(tokenize(combined))
          if not tokens:
              continue
          score = len(q_tokens & tokens) / max(1, len(tokens))
          if score > best_score:
              best_score = score
              best_faq = faq
      if best_faq and best_score >= threshold:
          return best_faq.get("answer"), round(best_score, 3)
      return None, 0.0
  \<close>
  The global \<^verbatim>\<open>FAQ_LIST\<close> is the first argument. A dictionary with three keys is true, so
  \<^verbatim>\<open>if best_faq\<close> asks whether an entry was chosen. The answer of the chosen entry went
  through the concatenation above, which raises for anything but a string.
\<close>

definition find_relevant_faq ::
  "faq list \<Rightarrow> string option \<Rightarrow> rat \<Rightarrow> py_error + (string option \<times> rat)" where
  "find_relevant_faq FAQ_LIST query threshold =
     (let q_tokens = set (tokenize query)
      in if q_tokens = {} then Inr (None, 0)
         else case faq_loop q_tokens FAQ_LIST (0, None) of
                Inl e \<Rightarrow> Inl e
              | Inr (best_score, best_faq) \<Rightarrow>
                  (case best_faq of
                     None \<Rightarrow> Inr (None, 0)
                   | Some f \<Rightarrow>
                       if best_score \<ge> threshold
                       then (case answer f of
                               JStr a \<Rightarrow> Inr (Some a, round3 best_score)
                             | _ \<Rightarrow> Inl TypeError)
                       else Inr (None, 0)))"

section \<open>Rule-based escalation\<close>

definition ESCALATION_KEYWORDS :: "string list" where
  "ESCALATION_KEYWORDS =
     [''hack'', ''hacking'', ''illegal'', ''fraud'', ''steal'', ''breach'',
      ''attack'', ''exploit'', ''bomb'', ''terror'', ''kill'']"

text \<open>
  \<^verbatim>\<open>
  def should_escalate(query: str) -> bool:
      if not query:
          return False
      q = query.lower()
      return any(k in q for k in ESCALATION_KEYWORDS)
  \<close>
\<close>

definition should_escalate :: "string option \<Rightarrow> bool" where
  "should_escalate query =
     (case query of
        None \<Rightarrow> False
      | Some s \<Rightarrow>
          if s = [] then False
          else (let q = lower s in list_ex (\<lambda>k. contains k q) ESCALATION_KEYWORDS))"

section \<open>The conversation store\<close>

text \<open>
  The table \<^verbatim>\<open>conversations\<close> is the list of its rows by increasing \<^verbatim>\<open>id\<close>: the key is
  \<^verbatim>\<open>AUTOINCREMENT\<close>, so an inserted row comes after every row there is or was. The
  timestamp column is never read. Statements on the database are taken to succeed.
\<close>

record row =
  row_session_id :: string
  row_role :: string
  row_content :: string

record message =
  role :: string
  content :: string

definition save_message :: "string \<Rightarrow> string \<Rightarrow> string \<Rightarrow> row list \<Rightarrow> row list" where
  "save_message session_id r c table =
     table @ [\<lparr>row_session_id = session_id, row_role = r, row_content = c\<rparr>]"

text \<open>\<^verbatim>\<open>SELECT role, content FROM conversations WHERE session_id=? ORDER BY id\<close>\<close>

definition select_rows :: "string \<Rightarrow> row list \<Rightarrow> (string \<times> string) list" where
  "select_rows session_id table =
     map (\<lambda>r. (row_role r, row_content r)) (filter (\<lambda>r. row_session_id r = session_id) table)"

fun history_loop :: "(string \<times> string) list \<Rightarrow> message list \<Rightarrow> message list" where
  "history_loop [] history = history"
| "history_loop ((r, c) # rows) history =
     history_loop rows
       (history @ [\<lparr>role = (if r = ''assistant'' then ''assistant'' else ''user''), content = c\<rparr>])"

text \<open>
  \<^verbatim>\<open>
  def get_history(session_id):
      ...
      c.execute("SELECT role, content FROM conversations WHERE session_id=? ORDER BY id", ...)
      rows = c.fetchall()
      history = []
      for role, content in rows:
          history.append({"role": "assistant" if role == "assistant" else "user",
                          "content": content})
      return history
  \<close>
\<close>

definition get_history :: "string \<Rightarrow> row list \<Rightarrow> message list" where
  "get_history session_id table = history_loop (select_rows session_id table) []"

text \<open>\<^verbatim>\<open>DELETE FROM conversations WHERE session_id=?\<close>\<close>

definition delete_rows :: "string \<Rightarrow> row list \<Rightarrow> row list" where
  "delete_rows session_id table = filter (\<lambda>r. row_session_id r \<noteq> session_id) table"

section \<open>The routes\<close>

text \<open>
  The state that a request can change: the table, the records logged, and the requests
  sent to the generative backend (the model asked and the messages sent).
\<close>

record state =
  conversations :: "row list"
  logged :: "log_record list"
  requests :: "(string \<times> message list) list"

text \<open>
  What a successful call of \<^verbatim>\<open>client.chat.completions.create\<close> returns, as far as the
  route reads it: \<^verbatim>\<open>resp.choices[0].message.content\<close> and \<^verbatim>\<open>resp.choices[0].text\<close>, each
  \<open>None\<close> when reading it or stripping it raises, and \<^verbatim>\<open>str(resp)\<close>.
\<close>

record completion =
  message_content :: "string option"
  choice_text :: "string option"
  as_str :: string

text \<open>
  What the module reads from its globals: the loaded \<^verbatim>\<open>FAQ_LIST\<close>, the list
  \<^verbatim>\<open>MODEL_FALLBACKS\<close>, and the backend, which answers a model and a list of messages with
  a completion or raises an exception with some text.
\<close>

record env =
  faq_list :: "faq list"
  model_fallbacks :: "string list"
  create :: "string \<Rightarrow> message list \<Rightarrow> string + completion"

definition MODEL_FALLBACKS :: "string list" where
  "MODEL_FALLBACKS = [''llama-3.1-8b-instant'']"

text \<open>
  The JSON body of a request: each of the two keys holds a string or is missing.
\<close>

record request =
  req_session_id :: "string option"
  req_query :: "string option"

text \<open>\<^verbatim>\<open>data.get("session_id", "default")\<close>\<close>

definition session_id_of :: "string option \<Rightarrow> string" where
  "session_id_of sid = (case sid of None \<Rightarrow> ''default'' | Some s \<Rightarrow> s)"

text \<open>
  A response is \<^verbatim>\<open>jsonify\<close> of a dictionary, written as the list of its items, with a
  status; \<open>InternalServerError e\<close> is the response of the outermost handler,
  \<^verbatim>\<open>{"error": "Internal server error", "detail": str(e)}\<close> with status 500.
\<close>

datatype response =
    Jsonify "(string \<times> json) list" nat
  | InternalServerError py_error

definition handoff_message :: string where
  "handoff_message = ''I cannot help with that. Connecting you to a human agent...''"

definition system_prompt :: string where
  "system_prompt =
     ''You are a helpful and concise customer support assistant. '' @
     ''If the user'' @ [CHR 0x27] @ ''s request is illegal, harmful, or requires human '' @
     ''intervention, reply EXACTLY with the token: ESCALATE_TO_AGENT''"

text \<open>The defensive parsing of the completion.\<close>

definition bot_reply_of :: "completion \<Rightarrow> string" where
  "bot_reply_of resp =
     (case message_content resp of
        Some c \<Rightarrow> strip c
      | None \<Rightarrow>
          (case choice_text resp of
             Some t \<Rightarrow> strip t
           | None \<Rightarrow> take 1000 (as_str resp)))"

text \<open>
  The loop \<^verbatim>\<open>for model in MODEL_FALLBACKS\<close>; the models still to try are the fifth
  argument, \<^verbatim>\<open>last_error\<close> the sixth.
  \<^verbatim>\<open>
  last_error = None
  for model in MODEL_FALLBACKS:
      try:
          resp = client.chat.completions.create(model=model, messages=messages, temperature=0.0)
          bot_reply = ...
          if "ESCALATE_TO_AGENT" in bot_reply:
              final_reply = "I cannot help with that. Connecting you to a human agent..."
              action = "escalated"
          else:
              final_reply = bot_reply
              action = "responded"
          save_message(session_id, "user", query)
          save_message(session_id, "assistant", final_reply)
          return jsonify({"response": final_reply, "source": f"llm:{model}",
                          "action": action, "session_id": session_id})
      except Exception as e:
          logger.warning("Model %s failed: %s", model, e)
          last_error = str(e)
          continue
  return jsonify({"error": "AI backend failed", "detail": last_error}), 500
  \<close>
\<close>

fun try_models ::
  "(string \<Rightarrow> message list \<Rightarrow> string + completion) \<Rightarrow> string \<Rightarrow> string \<Rightarrow> message list
     \<Rightarrow> string list \<Rightarrow> string option \<Rightarrow> state \<Rightarrow> response \<times> state" where
  "try_models client session_id query messages [] last_error st =
     (Jsonify [(''error'', JStr ''AI backend failed''),
               (''detail'', (case last_error of None \<Rightarrow> JNull | Some e \<Rightarrow> JStr e))] 500, st)"
| "try_models client session_id query messages (model # models) last_error st =
     (let st1 = st\<lparr>requests := requests st @ [(model, messages)]\<rparr>
      in case client model messages of
           Inl e \<Rightarrow>
             try_models client session_id query messages models (Some e)
               (st1\<lparr>logged := logged st1 @ [(WARNING, ''Model '' @ model @ '' failed: '' @ e)]\<rparr>)
         | Inr resp \<Rightarrow>
             (let bot_reply = bot_reply_of resp;
                  final_reply = (if contains ''ESCALATE_TO_AGENT'' bot_reply
                                 then handoff_message else bot_reply);
                  action = (if contains ''ESCALATE_TO_AGENT'' bot_reply
                            then ''escalated'' else ''responded'')
              in (Jsonify [(''response'', JStr final_reply),
                           (''source'', JStr (''llm:'' @ model)),
                           (''action'', JStr action),
                           (''session_id'', JStr session_id)] 200,
                  st1\<lparr>conversations :=
                        save_message session_id ''assistant'' final_reply
                          (save_message session_id ''user'' query (conversations st1))\<rparr>)))"

text \<open>
  \<^verbatim>\<open>
  messages = [{"role": "system", "content": system_prompt}, *history,
              {"role": "user", "content": query}]
  \<close>
\<close>

definition build_messages :: "message list \<Rightarrow> string \<Rightarrow> message list" where
  "build_messages history query =
     [\<lparr>role = ''system'', content = system_prompt\<rparr>] @ history
       @ [\<lparr>role = ''user'', content = query\<rparr>]"

text \<open>The third stage of \<^verbatim>\<open>/chat\<close>: the history, the messages, and the loop.\<close>

definition generate :: "env \<Rightarrow> string \<Rightarrow> string \<Rightarrow> state \<Rightarrow> response \<times> state" where
  "generate env session_id query st =
     (let history = get_history session_id (conversations st);
          messages = build_messages history query
      in try_models (create env) session_id query messages (model_fallbacks env) None st)"

text \<open>
  The route \<^verbatim>\<open>/chat\<close>.
  \<^verbatim>\<open>
  session_id = data.get("session_id", "default")
  query = data.get("query")
  if not query:
      return jsonify({"error": "No query provided"}), 400
  if should_escalate(query):
      message = "I cannot help with that. Connecting you to a human agent..."
      save_message(session_id, "user", query)
      save_message(session_id, "assistant", message)
      return jsonify({"response": message, "source": "rule-based",
                      "action": "escalated", "session_id": session_id})
  faq_answer, score = find_relevant_faq(query)
  if faq_answer:
      save_message(session_id, "user", query)
      save_message(session_id, "assistant", faq_answer)
      return jsonify({"response": faq_answer, "source": "faq", "match_score": score,
                      "action": "responded", "session_id": session_id})
  ...
  \<close>
  All of it runs under \<^verbatim>\<open>except Exception as e\<close>, which logs and answers with status 500.
\<close>

definition chat :: "env \<Rightarrow> request \<Rightarrow> state \<Rightarrow> response \<times> state" where
  "chat env req st =
     (let session_id = session_id_of (req_session_id req)
      in case req_query req of
           None \<Rightarrow> (Jsonify [(''error'', JStr ''No query provided'')] 400, st)
         | Some query \<Rightarrow>
             if query = [] then (Jsonify [(''error'', JStr ''No query provided'')] 400, st)
             else if should_escalate (Some query) then
               (Jsonify [(''response'', JStr handoff_message),
                         (''source'', JStr ''rule-based''),
                         (''action'', JStr ''escalated''),
                         (''session_id'', JStr session_id)] 200,
                st\<lparr>conversations :=
                     save_message session_id ''assistant'' handoff_message
                       (save_message session_id ''user'' query (conversations st))\<rparr>)
             else
               (case find_relevant_faq (faq_list env) (Some query) default_threshold of
                  Inl e \<Rightarrow>
                    (InternalServerError e,
                     st\<lparr>logged := logged st @ [(ERROR, ''Unhandled error in /chat'')]\<rparr>)
                | Inr (faq_answer, match_score) \<Rightarrow>
                    (case faq_answer of
                       None \<Rightarrow> generate env session_id query st
                     | Some a \<Rightarrow>
                         if a = [] then generate env session_id query st
                         else
                           (Jsonify [(''response'', JStr a),
                                     (''source'', JStr ''faq''),
                                     (''match_score'', JNum match_score),
                                     (''action'', JStr ''responded''),
                                     (''session_id'', JStr session_id)] 200,
                            st\<lparr>conversations :=
                                 save_message session_id ''assistant'' a
                                   (save_message session_id ''user'' query (conversations st))\<rparr>))))"

text \<open>
  The routes \<^verbatim>\<open>/history\<close> and \<^verbatim>\<open>/clear_history\<close>; the argument is the
  \<^verbatim>\<open>session_id\<close> of the request, if it has one.
\<close>

definition history :: "string option \<Rightarrow> state \<Rightarrow> message list" where
  "history sid st =
     get_history (session_id_of sid) (conversations st)"

definition clear_history :: "string option \<Rightarrow> state \<Rightarrow> response \<times> state" where
  "clear_history sid st =
     (let session_id = session_id_of sid
      in (Jsonify [(''cleared'', JBool True), (''session_id'', JStr session_id)] 200,
          st\<lparr>conversations := delete_rows session_id (conversations st)\<rparr>))"

section \<open>The matcher as the specification describes it\<close>

text \<open>
  A knowledge-base entry of the specification's data model: a question, an answer and
  tags, all of them strings.
\<close>

record kb_entry =
  entry_question :: string
  entry_answer :: string
  entry_tags :: "string list"

text \<open>The dictionary that \<^verbatim>\<open>FAQ_LIST\<close> holds for such an entry.\<close>

definition faq_of :: "kb_entry \<Rightarrow> faq" where
  "faq_of e = \<lparr>question = JStr (entry_question e), answer = JStr (entry_answer e),
              tags = JArr (map JStr (entry_tags e))\<rparr>"

text \<open>The set \<open>T\<close>: the tokens of the question, the answer and the tags.\<close>

definition entry_tokens :: "kb_entry \<Rightarrow> string set" where
  "entry_tokens e =
     set (tokenize (Some (entry_question e @ '' '' @ entry_answer e @ '' '' @ join (entry_tags e))))"

text \<open>The first element of a list at which \<open>f\<close> takes its greatest value on the list.\<close>

definition first_best :: "('a \<Rightarrow> rat) \<Rightarrow> 'a list \<Rightarrow> 'a option" where
  "first_best f xs = (if xs = [] then None else find (\<lambda>x. f x = Max (f ` set xs)) xs)"

text \<open>
  Section 4.3 of the specification, in its words: tokenize the query into \<open>Q\<close> and return
  none if it is empty; skip the entries whose \<open>T\<close> is empty; score the others by
  \<open>|Q \<inter> T| / max(1, |T|)\<close>; take the entry with the greatest score, the first one among
  equals; return its answer with the score rounded to three places if that score is at
  least the threshold, and none otherwise.
\<close>

definition matcher_spec :: "kb_entry list \<Rightarrow> string option \<Rightarrow> rat \<Rightarrow> (string \<times> rat) option" where
  "matcher_spec entries query threshold =
     (let Q = set (tokenize query)
      in if Q = {} then None
         else case first_best (\<lambda>e. score Q (entry_tokens e))
                     (filter (\<lambda>e. entry_tokens e \<noteq> {}) entries) of
                None \<Rightarrow> None
              | Some best \<Rightarrow>
                  if score Q (entry_tokens best) \<ge> threshold
                  then Some (entry_answer best, round3 (score Q (entry_tokens best)))
                  else None)"

section \<open>Facts about the string operations\<close>




lemma split_from_nonempty: "[] \<notin> set (split_from w s)"
  by (induction w s rule: split_from.induct) simp_all









section \<open>The conversation store\<close>

lemma history_loop_map:
  "history_loop rows h =
     h @ map (\<lambda>(r, c). \<lparr>role = (if r = ''assistant'' then ''assistant'' else ''user''), content = c\<rparr>) rows"
  by (induction rows h rule: history_loop.induct) simp_all

lemma get_history_map:
  "get_history sid table =
     map (\<lambda>r. \<lparr>role = (if row_role r = ''assistant'' then ''assistant'' else ''user''),
               content = row_content r\<rparr>)
       (filter (\<lambda>r. row_session_id r = sid) table)"
  by (simp add: get_history_def select_rows_def history_loop_map comp_def)

lemma get_history_save_message:
  "get_history sid (save_message sid' r c table) =
     (if sid' = sid
      then get_history sid table @ [\<lparr>role = (if r = ''assistant'' then ''assistant'' else ''user''), content = c\<rparr>]
      else get_history sid table)"
  by (simp add: get_history_map save_message_def)

lemma get_history_delete_rows:
  "get_history sid (delete_rows sid' table) = (if sid' = sid then [] else get_history sid table)"
proof -
  have "filter (\<lambda>r. row_session_id r = sid) (filter (\<lambda>r. row_session_id r \<noteq> sid) table) = []"
    by (induction table) simp_all
  moreover have "sid' \<noteq> sid \<Longrightarrow>
      filter (\<lambda>r. row_session_id r = sid) (filter (\<lambda>r. row_session_id r \<noteq> sid') table)
        = filter (\<lambda>r. row_session_id r = sid) table"
    by (induction table) auto
  ultimately show ?thesis
    by (simp add: get_history_map delete_rows_def)
qed

text \<open>
  C10. Retrieval maps every stored role other than the string \<^verbatim>\<open>assistant\<close> to
  \<^verbatim>\<open>user\<close>: the history of a session has one message for each of its rows, in the order
  of the rows, with the content of the row, and a row whose role is not \<^verbatim>\<open>assistant\<close>
  comes back as a user turn.
\<close>

theorem get_history_role_default:
  "get_history sid table =
     map (\<lambda>r. \<lparr>role = (if row_role r = ''assistant'' then ''assistant'' else ''user''),
               content = row_content r\<rparr>)
       (filter (\<lambda>r. row_session_id r = sid) table)
   \<and> length (get_history sid table) = length (filter (\<lambda>r. row_session_id r = sid) table)
   \<and> (\<forall>r \<in> set table. row_session_id r = sid \<and> row_role r \<noteq> ''assistant'' \<longrightarrow>
         \<lparr>role = ''user'', content = row_content r\<rparr> \<in> set (get_history sid table))"
  by (auto simp: get_history_map)

theorem get_history_role_default_witness:
  "\<lparr>row_session_id = ''s'', row_role = ''system'', row_content = ''be brief''\<rparr>
       \<in> set [\<lparr>row_session_id = ''s'', row_role = ''system'', row_content = ''be brief''\<rparr>,
               \<lparr>row_session_id = ''s'', row_role = ''assistant'', row_content = ''ok''\<rparr>]
   \<and> ''system'' \<noteq> ''assistant''
   \<and> get_history ''s'' [\<lparr>row_session_id = ''s'', row_role = ''system'', row_content = ''be brief''\<rparr>,
                         \<lparr>row_session_id = ''s'', row_role = ''assistant'', row_content = ''ok''\<rparr>]
       = [\<lparr>role = ''user'', content = ''be brief''\<rparr>, \<lparr>role = ''assistant'', content = ''ok''\<rparr>]"
  using get_history_role_default
    [of "''s''" "[\<lparr>row_session_id = ''s'', row_role = ''system'', row_content = ''be brief''\<rparr>,
                  \<lparr>row_session_id = ''s'', row_role = ''assistant'', row_content = ''ok''\<rparr>]"]
  by simp

text \<open>
  C9. The history of a session is all its rows in the order of their creation, each role
  being \<^verbatim>\<open>user\<close> or \<^verbatim>\<open>assistant\<close>; in a session without messages, appending a user
  message \<^verbatim>\<open>hi\<close> and an assistant message \<^verbatim>\<open>hello\<close> gives exactly these two, in this
  order; after clearing, the history is empty; clearing twice is clearing once; and the
  response says \<^verbatim>\<open>cleared: true\<close> whatever the session holds.
\<close>

theorem history_append_clear:
  "history (Some s) st =
     map (\<lambda>r. \<lparr>role = (if row_role r = ''assistant'' then ''assistant'' else ''user''),
               content = row_content r\<rparr>)
       (filter (\<lambda>r. row_session_id r = s) (conversations st))
   \<and> (\<forall>m \<in> set (history (Some s) st). role m = ''user'' \<or> role m = ''assistant'')
   \<and> (history (Some s) st = [] \<longrightarrow>
        history (Some s)
          (st\<lparr>conversations :=
                save_message s ''assistant'' ''hello'' (save_message s ''user'' ''hi'' (conversations st))\<rparr>)
          = [\<lparr>role = ''user'', content = ''hi''\<rparr>, \<lparr>role = ''assistant'', content = ''hello''\<rparr>])
   \<and> history (Some s) (snd (clear_history (Some s) st)) = []
   \<and> snd (clear_history (Some s) (snd (clear_history (Some s) st))) = snd (clear_history (Some s) st)
   \<and> fst (clear_history (Some s) st) = Jsonify [(''cleared'', JBool True), (''session_id'', JStr s)] 200"
proof -
  have idem: "delete_rows s (delete_rows s t) = delete_rows s t" for t
    by (simp add: delete_rows_def)
  show ?thesis
    by (auto simp: history_def clear_history_def session_id_of_def Let_def get_history_map get_history_save_message
        get_history_delete_rows idem save_message_def delete_rows_def)
qed

theorem history_append_clear_witness:
  "history (Some ''s'') \<lparr>conversations = [], logged = [], requests = []\<rparr> = []
   \<and> history (Some ''s'')
        \<lparr>conversations = save_message ''s'' ''assistant'' ''hello'' (save_message ''s'' ''user'' ''hi'' []),
         logged = [], requests = []\<rparr>
        = [\<lparr>role = ''user'', content = ''hi''\<rparr>, \<lparr>role = ''assistant'', content = ''hello''\<rparr>]
   \<and> \<lparr>role = ''user'', content = ''hi''\<rparr> \<in> set (history (Some ''s'')
        \<lparr>conversations = save_message ''s'' ''assistant'' ''hello'' (save_message ''s'' ''user'' ''hi'' []),
         logged = [], requests = []\<rparr>)
   \<and> fst (clear_history (Some ''s'') \<lparr>conversations = [], logged = [], requests = []\<rparr>)
        = Jsonify [(''cleared'', JBool True), (''session_id'', JStr ''s'')] 200"
  using history_append_clear [of "''s''" "\<lparr>conversations = [], logged = [], requests = []\<rparr>"]
    history_append_clear [of "''s''" "\<lparr>conversations = save_message ''s'' ''assistant'' ''hello'' (save_message ''s'' ''user'' ''hi'' []),
         logged = [], requests = []\<rparr>"]
  by (simp add: history_def session_id_of_def get_history_def select_rows_def save_message_def)

section \<open>Escalation\<close>

lemma contains_sublist: "contains needle hay \<longleftrightarrow> sublist needle hay"
  by (induction hay) (simp_all add: sublist_Cons_right)

lemma contains_iff: "contains needle hay \<longleftrightarrow> (\<exists>pre post. hay = pre @ needle @ post)"
  by (simp add: contains_sublist sublist_def)

lemma should_escalate_iff:
  "should_escalate (Some q) \<longleftrightarrow> (\<exists>k \<in> set ESCALATION_KEYWORDS. \<exists>pre post. lower q = pre @ k @ post)"
proof (cases "q = []")
  case True
  then show ?thesis
    by (auto simp: should_escalate_def lower_def ESCALATION_KEYWORDS_def)
next
  case False
  then show ?thesis
    by (simp add: should_escalate_def list_ex_iff contains_iff)
qed

text \<open>
  C2. \<^verbatim>\<open>should_escalate\<close> is false for \<^verbatim>\<open>None\<close> and for the empty string. When some part
  of the query is a keyword up to case, \<^verbatim>\<open>should_escalate\<close> is true and \<^verbatim>\<open>/chat\<close> answers
  with the handoff message, the source \<^verbatim>\<open>rule-based\<close> and the action \<^verbatim>\<open>escalated\<close>,
  after saving the two messages; no request goes to the backend, and the answer is the same
  whatever the FAQ list, the models and the backend are.
\<close>

theorem escalation_runs_first:
  "should_escalate None = False \<and> should_escalate (Some []) = False
   \<and> ((\<exists>k \<in> set ESCALATION_KEYWORDS. \<exists>pre w post. query = pre @ w @ post \<and> lower w = k) \<longrightarrow>
        should_escalate (Some query)
        \<and> chat env \<lparr>req_session_id = sid, req_query = Some query\<rparr> st =
            (Jsonify [(''response'', JStr handoff_message),
                      (''source'', JStr ''rule-based''),
                      (''action'', JStr ''escalated''),
                      (''session_id'', JStr (session_id_of sid))] 200,
             st\<lparr>conversations := conversations st @
                  [\<lparr>row_session_id = session_id_of sid,
                    row_role = ''user'', row_content = query\<rparr>,
                   \<lparr>row_session_id = session_id_of sid,
                    row_role = ''assistant'', row_content = handoff_message\<rparr>]\<rparr>)
        \<and> requests (snd (chat env \<lparr>req_session_id = sid, req_query = Some query\<rparr> st)) = requests st
        \<and> (\<forall>env'. chat env' \<lparr>req_session_id = sid, req_query = Some query\<rparr> st
                    = chat env \<lparr>req_session_id = sid, req_query = Some query\<rparr> st))"
proof -
  have none: "should_escalate None = False" "should_escalate (Some []) = False"
    by (simp_all add: should_escalate_def)
  {
    assume "\<exists>k \<in> set ESCALATION_KEYWORDS. \<exists>pre w post. query = pre @ w @ post \<and> lower w = k"
    then obtain k pre w post where k: "k \<in> set ESCALATION_KEYWORDS"
      and q: "query = pre @ w @ post" and w: "lower w = k"
      by blast
    have "lower query = lower pre @ k @ lower post"
      using q w by (simp add: lower_def)
    with k have esc: "should_escalate (Some query)"
      unfolding should_escalate_iff by blast
    then have ne: "query \<noteq> []"
      using none(2) by auto
    have run: "chat e \<lparr>req_session_id = sid, req_query = Some query\<rparr> st =
            (Jsonify [(''response'', JStr handoff_message),
                      (''source'', JStr ''rule-based''),
                      (''action'', JStr ''escalated''),
                      (''session_id'', JStr (session_id_of sid))] 200,
             st\<lparr>conversations := conversations st @
                  [\<lparr>row_session_id = session_id_of sid,
                    row_role = ''user'', row_content = query\<rparr>,
                   \<lparr>row_session_id = session_id_of sid,
                    row_role = ''assistant'', row_content = handoff_message\<rparr>]\<rparr>)" for e
      using esc ne by (simp add: chat_def save_message_def Let_def)
    note esc run
  }
  then show ?thesis using none by simp
qed

theorem escalation_runs_first_witness:
  "(\<exists>k \<in> set ESCALATION_KEYWORDS. \<exists>pre w post.
       ''How to HACK a site'' = pre @ w @ post \<and> lower w = k)
   \<and> should_escalate (Some ''How to HACK a site'')
   \<and> fst (chat \<lparr>faq_list = [], model_fallbacks = [], create = (\<lambda>m ms. Inl ''down'')\<rparr>
            \<lparr>req_session_id = Some ''s1'', req_query = Some ''How to HACK a site''\<rparr>
            \<lparr>conversations = [], logged = [], requests = []\<rparr>)
       = Jsonify [(''response'', JStr handoff_message),
                  (''source'', JStr ''rule-based''),
                  (''action'', JStr ''escalated''),
                  (''session_id'', JStr ''s1'')] 200"
proof -
  have "''How to HACK a site'' = ''How to '' @ ''HACK'' @ '' a site'' \<and> lower ''HACK'' = ''hack''"
    by (simp add: lower_def lower_char_def ascii_uppercase_def ascii_lowercase_def)
  moreover have "''hack'' \<in> set ESCALATION_KEYWORDS"
    by (simp add: ESCALATION_KEYWORDS_def)
  ultimately have h: "\<exists>k \<in> set ESCALATION_KEYWORDS. \<exists>pre w post.
       ''How to HACK a site'' = pre @ w @ post \<and> lower w = k"
    by blast
  show ?thesis
    using h escalation_runs_first
      [of "''How to HACK a site''" "\<lparr>faq_list = [], model_fallbacks = [], create = (\<lambda>m ms. Inl ''down'')\<rparr>"
          "Some ''s1''" "\<lparr>conversations = [], logged = [], requests = []\<rparr>"]
    by (simp add: session_id_of_def)
qed

section \<open>The generative stage\<close>

text \<open>The warnings logged for the models that failed, with the texts of their exceptions.\<close>

lemma try_models_all_fail:
  "map (\<lambda>m. client m messages) models = map Inl errs \<Longrightarrow>
   try_models client sid query messages models last_error st =
     (Jsonify [(''error'', JStr ''AI backend failed''),
               (''detail'', (case (if errs = [] then last_error else Some (last errs)) of
                               None \<Rightarrow> JNull | Some e \<Rightarrow> JStr e))] 500,
      st\<lparr>requests := requests st @ map (\<lambda>m. (m, messages)) models,
         logged := logged st @
           map (\<lambda>(m, e). (WARNING, ''Model '' @ m @ '' failed: '' @ e)) (zip models errs)\<rparr>)"
proof (induction models arbitrary: errs last_error st)
  case Nil
  then show ?case by simp
next
  case (Cons m models)
  then obtain e es where errs: "errs = e # es" and e: "client m messages = Inl e"
    and es: "map (\<lambda>m. client m messages) models = map Inl es"
    by (cases errs) auto
  show ?case
    using Cons.IH [OF es, of "Some e"] e errs by (simp add: Let_def)
qed

lemma try_models_first_success:
  "map (\<lambda>m. client m messages) pre = map Inl errs \<Longrightarrow> client m messages = Inr resp \<Longrightarrow>
   try_models client sid query messages (pre @ m # post) last_error st =
     (Jsonify [(''response'', JStr (if contains ''ESCALATE_TO_AGENT'' (bot_reply_of resp)
                                    then handoff_message else bot_reply_of resp)),
               (''source'', JStr (''llm:'' @ m)),
               (''action'', JStr (if contains ''ESCALATE_TO_AGENT'' (bot_reply_of resp)
                                  then ''escalated'' else ''responded'')),
               (''session_id'', JStr sid)] 200,
      st\<lparr>requests := requests st @ map (\<lambda>m. (m, messages)) (pre @ [m]),
         logged := logged st @
           map (\<lambda>(m, e). (WARNING, ''Model '' @ m @ '' failed: '' @ e)) (zip pre errs),
         conversations := conversations st @
           [\<lparr>row_session_id = sid, row_role = ''user'', row_content = query\<rparr>,
            \<lparr>row_session_id = sid, row_role = ''assistant'',
             row_content = (if contains ''ESCALATE_TO_AGENT'' (bot_reply_of resp)
                            then handoff_message else bot_reply_of resp)\<rparr>]\<rparr>)"
proof (induction pre arbitrary: errs last_error st)
  case Nil
  then show ?case by (simp add: Let_def save_message_def)
next
  case (Cons p pre)
  then obtain e es where errs: "errs = e # es" and e: "client p messages = Inl e"
    and es: "map (\<lambda>m. client m messages) pre = map Inl es"
    by (cases errs) auto
  show ?case
    using Cons.IH [OF es Cons.prems(2), of "Some e"] e errs by (simp add: Let_def)
qed

text \<open>Either every model fails, or there is a first one that succeeds.\<close>

lemma models_fail_or_succeed:
  "(\<exists>errs. map (\<lambda>m. client m messages) models = map Inl errs)
   \<or> (\<exists>pre m post errs resp. models = pre @ m # post
         \<and> map (\<lambda>m. client m messages) pre = map Inl errs \<and> client m messages = Inr resp)"
proof (induction models)
  case Nil
  then show ?case by simp
next
  case (Cons a models)
  show ?case
  proof (cases "client a messages")
    case (Inr resp)
    then have "a # models = [] @ a # models \<and> map (\<lambda>m. client m messages) [] = map Inl []
        \<and> client a messages = Inr resp"
      by simp
    then show ?thesis by blast
  next
    case (Inl e)
    from Cons.IH show ?thesis
    proof
      assume "\<exists>errs. map (\<lambda>m. client m messages) models = map Inl errs"
      then obtain errs where "map (\<lambda>m. client m messages) models = map Inl errs" ..
      with Inl have "map (\<lambda>m. client m messages) (a # models) = map Inl (e # errs)"
        by simp
      then show ?thesis by blast
    next
      assume "\<exists>pre m post errs resp. models = pre @ m # post
         \<and> map (\<lambda>m. client m messages) pre = map Inl errs \<and> client m messages = Inr resp"
      then obtain pre m post errs resp where "models = pre @ m # post"
        "map (\<lambda>m. client m messages) pre = map Inl errs" "client m messages = Inr resp"
        by blast
      with Inl have "a # models = (a # pre) @ m # post
          \<and> map (\<lambda>m. client m messages) (a # pre) = map Inl (e # errs)
          \<and> client m messages = Inr resp"
        by simp
      then show ?thesis by blast
    qed
  qed
qed

text \<open>When \<^verbatim>\<open>/chat\<close> reaches its third stage.\<close>

lemma chat_generate:
  assumes "query \<noteq> []" and "\<not> should_escalate (Some query)"
    and "find_relevant_faq (faq_list env) (Some query) default_threshold = Inr (a, sc)"
    and "a = None \<or> a = Some []"
  shows "chat env \<lparr>req_session_id = sid, req_query = Some query\<rparr> st =
     try_models (create env) (session_id_of sid) query
       (build_messages (get_history (session_id_of sid) (conversations st)) query)
       (model_fallbacks env) None st"
  using assms by (auto simp: chat_def generate_def Let_def)

lemma find_relevant_faq_no_entries: "find_relevant_faq [] query threshold = Inr (None, 0)"
  by (simp add: find_relevant_faq_def Let_def)

text \<open>
  C4. Once \<^verbatim>\<open>/chat\<close> reaches the generative stage, the models are asked in the order of
  the list. If every model fails, the response is the error \<^verbatim>\<open>AI backend failed\<close> with the
  text of the last exception (\<^verbatim>\<open>null\<close> for an empty list), one warning is logged per model,
  in order, and no message is saved. If a model succeeds after the models before it failed,
  the response names that model as the source, the warnings logged are those of the models
  before it, and no model after it is asked. The error is reported only when every model
  failed.
\<close>

theorem backend_fallback_order:
  assumes "query \<noteq> []" and "\<not> should_escalate (Some query)"
    and "find_relevant_faq (faq_list env) (Some query) default_threshold = Inr (a, sc)"
    and "a = None \<or> a = Some []"
    and "messages = build_messages (get_history (session_id_of sid) (conversations st)) query"
    and "req = \<lparr>req_session_id = sid, req_query = Some query\<rparr>"
  shows "(map (\<lambda>m. create env m messages) (model_fallbacks env) = map Inl errs \<longrightarrow>
            chat env req st =
              (Jsonify [(''error'', JStr ''AI backend failed''),
                        (''detail'', (if errs = [] then JNull else JStr (last errs)))] 500,
               st\<lparr>requests := requests st @ map (\<lambda>m. (m, messages)) (model_fallbacks env),
                  logged := logged st @
                    map (\<lambda>(m, e). (WARNING, ''Model '' @ m @ '' failed: '' @ e))
                      (zip (model_fallbacks env) errs)\<rparr>)
            \<and> conversations (snd (chat env req st)) = conversations st)
     \<and> (model_fallbacks env = pre @ m # post
          \<and> map (\<lambda>m. create env m messages) pre = map Inl errs
          \<and> create env m messages = Inr resp \<longrightarrow>
            (\<exists>r act. fst (chat env req st) =
               Jsonify [(''response'', JStr r), (''source'', JStr (''llm:'' @ m)),
                        (''action'', JStr act), (''session_id'', JStr (session_id_of sid))] 200)
            \<and> requests (snd (chat env req st)) =
                 requests st @ map (\<lambda>m. (m, messages)) (pre @ [m])
            \<and> logged (snd (chat env req st)) =
                 logged st @ map (\<lambda>(m, e). (WARNING, ''Model '' @ m @ '' failed: '' @ e)) (zip pre errs))
     \<and> ((\<exists>d. fst (chat env req st) =
              Jsonify [(''error'', JStr ''AI backend failed''), (''detail'', d)] 500) \<longrightarrow>
          (\<exists>errs. map (\<lambda>m. create env m messages) (model_fallbacks env) = map Inl errs))"
proof -
  have run: "chat env req st =
      try_models (create env) (session_id_of sid) query messages (model_fallbacks env) None st"
    using chat_generate [OF assms(1-4)] assms(5,6) by simp
  have fail: "chat env req st =
              (Jsonify [(''error'', JStr ''AI backend failed''),
                        (''detail'', (if errs = [] then JNull else JStr (last errs)))] 500,
               st\<lparr>requests := requests st @ map (\<lambda>m. (m, messages)) (model_fallbacks env),
                  logged := logged st @
                    map (\<lambda>(m, e). (WARNING, ''Model '' @ m @ '' failed: '' @ e))
                      (zip (model_fallbacks env) errs)\<rparr>)"
    if "map (\<lambda>m. create env m messages) (model_fallbacks env) = map Inl errs"
    unfolding run
    using try_models_all_fail [where client = "create env" and messages = messages
        and models = "model_fallbacks env" and errs = errs, OF that]
    by simp
  have ok: "chat env req st =
     (Jsonify [(''response'', JStr (if contains ''ESCALATE_TO_AGENT'' (bot_reply_of r)
                                    then handoff_message else bot_reply_of r)),
               (''source'', JStr (''llm:'' @ x)),
               (''action'', JStr (if contains ''ESCALATE_TO_AGENT'' (bot_reply_of r)
                                  then ''escalated'' else ''responded'')),
               (''session_id'', JStr (session_id_of sid))] 200,
      st\<lparr>requests := requests st @ map (\<lambda>m. (m, messages)) (p @ [x]),
         logged := logged st @
           map (\<lambda>(m, e). (WARNING, ''Model '' @ m @ '' failed: '' @ e)) (zip p es),
         conversations := conversations st @
           [\<lparr>row_session_id = session_id_of sid, row_role = ''user'', row_content = query\<rparr>,
            \<lparr>row_session_id = session_id_of sid, row_role = ''assistant'',
             row_content = (if contains ''ESCALATE_TO_AGENT'' (bot_reply_of r)
                            then handoff_message else bot_reply_of r)\<rparr>]\<rparr>)"
    if "model_fallbacks env = p @ x # q" "map (\<lambda>m. create env m messages) p = map Inl es"
      "create env x messages = Inr r" for p x q es r
    unfolding run that(1)
    using try_models_first_success [where client = "create env" and messages = messages
        and pre = p and errs = es and m = x and resp = r, OF that(2,3)]
    by simp
  have part1: "map (\<lambda>m. create env m messages) (model_fallbacks env) = map Inl errs \<longrightarrow>
            chat env req st =
              (Jsonify [(''error'', JStr ''AI backend failed''),
                        (''detail'', (if errs = [] then JNull else JStr (last errs)))] 500,
               st\<lparr>requests := requests st @ map (\<lambda>m. (m, messages)) (model_fallbacks env),
                  logged := logged st @
                    map (\<lambda>(m, e). (WARNING, ''Model '' @ m @ '' failed: '' @ e))
                      (zip (model_fallbacks env) errs)\<rparr>)
            \<and> conversations (snd (chat env req st)) = conversations st"
    using fail by simp
  have part2: "model_fallbacks env = pre @ m # post
          \<and> map (\<lambda>m. create env m messages) pre = map Inl errs
          \<and> create env m messages = Inr resp \<longrightarrow>
            (\<exists>r act. fst (chat env req st) =
               Jsonify [(''response'', JStr r), (''source'', JStr (''llm:'' @ m)),
                        (''action'', JStr act), (''session_id'', JStr (session_id_of sid))] 200)
            \<and> requests (snd (chat env req st)) =
                 requests st @ map (\<lambda>m. (m, messages)) (pre @ [m])
            \<and> logged (snd (chat env req st)) =
                 logged st @ map (\<lambda>(m, e). (WARNING, ''Model '' @ m @ '' failed: '' @ e)) (zip pre errs)"
  proof (intro impI, elim conjE)
    assume h: "model_fallbacks env = pre @ m # post"
      "map (\<lambda>m. create env m messages) pre = map Inl errs" "create env m messages = Inr resp"
    show "(\<exists>r act. fst (chat env req st) =
               Jsonify [(''response'', JStr r), (''source'', JStr (''llm:'' @ m)),
                        (''action'', JStr act), (''session_id'', JStr (session_id_of sid))] 200)
            \<and> requests (snd (chat env req st)) =
                 requests st @ map (\<lambda>m. (m, messages)) (pre @ [m])
            \<and> logged (snd (chat env req st)) =
                 logged st @ map (\<lambda>(m, e). (WARNING, ''Model '' @ m @ '' failed: '' @ e)) (zip pre errs)"
      unfolding ok [OF h] by simp
  qed
  have part3: "(\<exists>d. fst (chat env req st) =
              Jsonify [(''error'', JStr ''AI backend failed''), (''detail'', d)] 500) \<longrightarrow>
          (\<exists>errs. map (\<lambda>m. create env m messages) (model_fallbacks env) = map Inl errs)"
  proof
    assume bad: "\<exists>d. fst (chat env req st) =
              Jsonify [(''error'', JStr ''AI backend failed''), (''detail'', d)] 500"
    from models_fail_or_succeed [of "create env" messages "model_fallbacks env"]
    show "\<exists>errs. map (\<lambda>m. create env m messages) (model_fallbacks env) = map Inl errs"
    proof
      assume "\<exists>p x q es r. model_fallbacks env = p @ x # q
         \<and> map (\<lambda>m. create env m messages) p = map Inl es \<and> create env x messages = Inr r"
      then obtain p x q es r where h: "model_fallbacks env = p @ x # q"
        "map (\<lambda>m. create env m messages) p = map Inl es" "create env x messages = Inr r"
        by blast
      from bad show ?thesis unfolding ok [OF h] by simp
    qed
  qed
  from part1 part2 part3 show ?thesis by (intro conjI)
qed

theorem backend_fallback_order_witness:
  "\<not> should_escalate (Some ''hello there'')
   \<and> find_relevant_faq [] (Some ''hello there'') default_threshold = Inr (None, 0)
   \<and> chat \<lparr>faq_list = [], model_fallbacks = [''a'', ''b''], create = (\<lambda>m ms. Inl (''no '' @ m))\<rparr>
        \<lparr>req_session_id = Some ''s'', req_query = Some ''hello there''\<rparr>
        \<lparr>conversations = [], logged = [], requests = []\<rparr>
      = (Jsonify [(''error'', JStr ''AI backend failed''), (''detail'', JStr ''no b'')] 500,
         \<lparr>conversations = [],
          logged = [(WARNING, ''Model a failed: no a''), (WARNING, ''Model b failed: no b'')],
          requests = [(''a'', build_messages [] ''hello there''),
                      (''b'', build_messages [] ''hello there'')]\<rparr>)
   \<and> (\<exists>r act.
         fst (chat \<lparr>faq_list = [], model_fallbacks = [''a'', ''b''],
                    create = (\<lambda>m ms. if m = ''a'' then Inl ''down''
                                       else Inr \<lparr>message_content = Some ''Hello!'',
                                                 choice_text = None, as_str = []\<rparr>)\<rparr>
                \<lparr>req_session_id = Some ''s'', req_query = Some ''hello there''\<rparr>
                \<lparr>conversations = [], logged = [], requests = []\<rparr>)
         = Jsonify [(''response'', JStr r), (''source'', JStr ''llm:b''),
                    (''action'', JStr act), (''session_id'', JStr ''s'')] 200)
   \<and> logged (snd (chat \<lparr>faq_list = [], model_fallbacks = [''a'', ''b''],
                    create = (\<lambda>m ms. if m = ''a'' then Inl ''down''
                                       else Inr \<lparr>message_content = Some ''Hello!'',
                                                 choice_text = None, as_str = []\<rparr>)\<rparr>
                \<lparr>req_session_id = Some ''s'', req_query = Some ''hello there''\<rparr>
                \<lparr>conversations = [], logged = [], requests = []\<rparr>))
       = [(WARNING, ''Model a failed: down'')]"
proof -
  have ne: "\<not> should_escalate (Some ''hello there'')"
    by code_simp
  have nf: "find_relevant_faq (faq_list \<lparr>faq_list = [], model_fallbacks = ms, create = c\<rparr>)
              (Some ''hello there'') default_threshold = Inr (None, 0)" for ms c
    by (simp add: find_relevant_faq_no_entries)
  have h: "get_history ''s'' [] = []"
    by (simp add: get_history_def select_rows_def)
  have q: "''hello there'' \<noteq> []"
    by simp
  note fail = backend_fallback_order
    [where env = "\<lparr>faq_list = [], model_fallbacks = [''a'', ''b''], create = (\<lambda>m ms. Inl (''no '' @ m))\<rparr>"
       and sid = "Some ''s''" and st = "\<lparr>conversations = [], logged = [], requests = []\<rparr>"
       and errs = "[''no a'', ''no b'']" and pre = "[]" and post = "[]" and m = "[]"
       and resp = "\<lparr>message_content = None, choice_text = None, as_str = []\<rparr>",
     OF q ne nf _ refl refl]
  note ok = backend_fallback_order
    [where env = "\<lparr>faq_list = [], model_fallbacks = [''a'', ''b''],
                    create = (\<lambda>m ms. if m = ''a'' then Inl ''down''
                                       else Inr \<lparr>message_content = Some ''Hello!'',
                                                 choice_text = None, as_str = []\<rparr>)\<rparr>"
       and sid = "Some ''s''" and st = "\<lparr>conversations = [], logged = [], requests = []\<rparr>"
       and errs = "[''down'']" and pre = "[''a'']" and post = "[]" and m = "''b''"
       and resp = "\<lparr>message_content = Some ''Hello!'', choice_text = None, as_str = []\<rparr>",
     OF q ne nf _ refl refl]
  show ?thesis
    using ne fail ok by (simp add: find_relevant_faq_no_entries h session_id_of_def)
qed

text \<open>
  C5. For the reply extracted from the completion of the model that succeeds: if the
  sentinel \<^verbatim>\<open>ESCALATE_TO_AGENT\<close> occurs anywhere in it, the action is \<^verbatim>\<open>escalated\<close> and
  the response, also the one saved, is the fixed handoff message; otherwise the response is
  the reply itself and the action is \<^verbatim>\<open>responded\<close>.
\<close>

theorem sentinel_detection:
  assumes "query \<noteq> []" and "\<not> should_escalate (Some query)"
    and "find_relevant_faq (faq_list env) (Some query) default_threshold = Inr (a, sc)"
    and "a = None \<or> a = Some []"
    and "messages = build_messages (get_history (session_id_of sid) (conversations st)) query"
    and "req = \<lparr>req_session_id = sid, req_query = Some query\<rparr>"
    and "model_fallbacks env = pre @ m # post"
    and "map (\<lambda>m. create env m messages) pre = map Inl errs"
    and "create env m messages = Inr resp"
  shows "((\<exists>u v. bot_reply_of resp = u @ ''ESCALATE_TO_AGENT'' @ v) \<longrightarrow>
            fst (chat env req st) =
              Jsonify [(''response'', JStr handoff_message), (''source'', JStr (''llm:'' @ m)),
                       (''action'', JStr ''escalated''),
                       (''session_id'', JStr (session_id_of sid))] 200
            \<and> conversations (snd (chat env req st)) = conversations st @
                 [\<lparr>row_session_id = session_id_of sid, row_role = ''user'', row_content = query\<rparr>,
                  \<lparr>row_session_id = session_id_of sid, row_role = ''assistant'',
                   row_content = handoff_message\<rparr>])
     \<and> (\<not> (\<exists>u v. bot_reply_of resp = u @ ''ESCALATE_TO_AGENT'' @ v) \<longrightarrow>
            fst (chat env req st) =
              Jsonify [(''response'', JStr (bot_reply_of resp)), (''source'', JStr (''llm:'' @ m)),
                       (''action'', JStr ''responded''),
                       (''session_id'', JStr (session_id_of sid))] 200
            \<and> conversations (snd (chat env req st)) = conversations st @
                 [\<lparr>row_session_id = session_id_of sid, row_role = ''user'', row_content = query\<rparr>,
                  \<lparr>row_session_id = session_id_of sid, row_role = ''assistant'',
                   row_content = bot_reply_of resp\<rparr>])"
proof -
  have "chat env req st =
      try_models (create env) (session_id_of sid) query messages (pre @ m # post) None st"
    using chat_generate [OF assms(1-4)] assms(5-7) by simp
  then show ?thesis
    using try_models_first_success [where client = "create env" and messages = messages
        and pre = pre and errs = errs and m = m and resp = resp, OF assms(8,9)]
    by (simp add: contains_iff)
qed

theorem sentinel_detection_witness:
  "(\<exists>u v. bot_reply_of \<lparr>message_content = Some ''  Sorry. ESCALATE_TO_AGENT '',
                          choice_text = None, as_str = []\<rparr> = u @ ''ESCALATE_TO_AGENT'' @ v)
   \<and> fst (chat \<lparr>faq_list = [], model_fallbacks = [''a''],
                create = (\<lambda>m ms. Inr \<lparr>message_content = Some ''  Sorry. ESCALATE_TO_AGENT '',
                                         choice_text = None, as_str = []\<rparr>)\<rparr>
            \<lparr>req_session_id = None, req_query = Some ''hello there''\<rparr>
            \<lparr>conversations = [], logged = [], requests = []\<rparr>)
       = Jsonify [(''response'', JStr handoff_message), (''source'', JStr ''llm:a''),
                  (''action'', JStr ''escalated''), (''session_id'', JStr ''default'')] 200
   \<and> \<not> (\<exists>u v. bot_reply_of \<lparr>message_content = None, choice_text = Some '' Hello! '',
                              as_str = []\<rparr> = u @ ''ESCALATE_TO_AGENT'' @ v)
   \<and> fst (chat \<lparr>faq_list = [], model_fallbacks = [''a''],
                create = (\<lambda>m ms. Inr \<lparr>message_content = None, choice_text = Some '' Hello! '',
                                         as_str = []\<rparr>)\<rparr>
            \<lparr>req_session_id = None, req_query = Some ''hello there''\<rparr>
            \<lparr>conversations = [], logged = [], requests = []\<rparr>)
       = Jsonify [(''response'', JStr ''Hello!''), (''source'', JStr ''llm:a''),
                  (''action'', JStr ''responded''), (''session_id'', JStr ''default'')] 200"
proof -
  have ne: "\<not> should_escalate (Some ''hello there'')"
    by code_simp
  have nf: "find_relevant_faq (faq_list \<lparr>faq_list = [], model_fallbacks = ms, create = c\<rparr>)
              (Some ''hello there'') default_threshold = Inr (None, 0)" for ms c
    by (simp add: find_relevant_faq_no_entries)
  have q: "''hello there'' \<noteq> []"
    by simp
  have r1: "bot_reply_of \<lparr>message_content = Some ''  Sorry. ESCALATE_TO_AGENT '',
                          choice_text = None, as_str = []\<rparr> = ''Sorry. ESCALATE_TO_AGENT''"
    by code_simp
  have r2: "bot_reply_of \<lparr>message_content = None, choice_text = Some '' Hello! '',
                              as_str = []\<rparr> = ''Hello!''"
    by code_simp
  have c1: "\<exists>u v. ''Sorry. ESCALATE_TO_AGENT'' = u @ ''ESCALATE_TO_AGENT'' @ v"
  proof -
    have "''Sorry. ESCALATE_TO_AGENT'' = ''Sorry. '' @ ''ESCALATE_TO_AGENT'' @ []"
      by simp
    then show ?thesis by blast
  qed
  have c2: "\<not> (\<exists>u v. ''Hello!'' = u @ ''ESCALATE_TO_AGENT'' @ v)"
  proof -
    have "\<not> contains ''ESCALATE_TO_AGENT'' ''Hello!''"
      by code_simp
    then show ?thesis by (simp add: contains_iff)
  qed
  note esc = sentinel_detection
    [where env = "\<lparr>faq_list = [], model_fallbacks = [''a''],
                create = (\<lambda>m ms. Inr \<lparr>message_content = Some ''  Sorry. ESCALATE_TO_AGENT '',
                                         choice_text = None, as_str = []\<rparr>)\<rparr>"
       and sid = None and st = "\<lparr>conversations = [], logged = [], requests = []\<rparr>"
       and pre = "[]" and errs = "[]" and m = "''a''" and post = "[]"
       and resp = "\<lparr>message_content = Some ''  Sorry. ESCALATE_TO_AGENT '',
                                         choice_text = None, as_str = []\<rparr>",
     OF q ne nf _ refl refl]
  note ans = sentinel_detection
    [where env = "\<lparr>faq_list = [], model_fallbacks = [''a''],
                create = (\<lambda>m ms. Inr \<lparr>message_content = None, choice_text = Some '' Hello! '',
                                         as_str = []\<rparr>)\<rparr>"
       and sid = None and st = "\<lparr>conversations = [], logged = [], requests = []\<rparr>"
       and pre = "[]" and errs = "[]" and m = "''a''" and post = "[]"
       and resp = "\<lparr>message_content = None, choice_text = Some '' Hello! '',
                                         as_str = []\<rparr>",
     OF q ne nf _ refl refl]
  show ?thesis
    using esc ans c1 c2 unfolding r1 r2 by (simp add: session_id_of_def)
qed

section \<open>Evaluating scores\<close>

lemma round_half_even_quotient:
  assumes "0 < d"
  shows "round_half_even (of_int n / of_int d) =
     (if 2 * (n mod d) < d then n div d
      else if d < 2 * (n mod d) then n div d + 1
      else if even (n div d) then n div d else n div d + 1)"
proof -
  have fl: "\<lfloor>(of_int n / of_int d :: rat)\<rfloor> = n div d"
    by (rule floor_divide_of_int_eq)
  have "(of_int n :: rat) = of_int (n div d) * of_int d + of_int (n mod d)"
    by (metis of_int_add of_int_mult div_mult_mod_eq)
  then have fr: "(of_int n / of_int d :: rat) - of_int (n div d) = of_int (n mod d) / of_int d"
    using assms by (simp add: field_simps)
  have lt: "(of_int (n mod d) / of_int d :: rat) < 1 / 2 \<longleftrightarrow> 2 * (n mod d) < d"
  proof -
    have "(of_int (n mod d) / of_int d :: rat) < 1 / 2 \<longleftrightarrow> (of_int (2 * (n mod d)) :: rat) < of_int d"
      using assms by (simp add: field_simps)
    then show ?thesis by (simp only: of_int_less_iff)
  qed
  have gt: "1 / 2 < (of_int (n mod d) / of_int d :: rat) \<longleftrightarrow> d < 2 * (n mod d)"
  proof -
    have "1 / 2 < (of_int (n mod d) / of_int d :: rat) \<longleftrightarrow> (of_int d :: rat) < of_int (2 * (n mod d))"
      using assms by (simp add: field_simps)
    then show ?thesis by (simp only: of_int_less_iff)
  qed
  show ?thesis
    unfolding round_half_even_def Let_def fl fr lt gt ..
qed

lemma round_half_even_numeral:
  "round_half_even (numeral n / numeral d) =
     (if 2 * (numeral n mod numeral d) < (numeral d :: int) then numeral n div numeral d
      else if numeral d < 2 * (numeral n mod numeral d :: int) then numeral n div numeral d + 1
      else if even (numeral n div numeral d :: int) then numeral n div numeral d
      else numeral n div numeral d + 1)"
  using round_half_even_quotient [of "numeral d" "numeral n"] by simp

lemma floorlog_2_values:
  "floorlog 2 1 = 1" "floorlog 2 2 = 2" "floorlog 2 3 = 2" "floorlog 2 6 = 3" "floorlog 2 10 = 4"
  by (simp_all add: compute_floorlog)

lemma default_threshold_value: "default_threshold = 5404319552844595 / 18014398509481984"
  by (simp add: default_threshold_def float_div_def Let_def floorlog_2_values round_half_even_numeral)

lemma float_div_2_6: "float_div 2 6 = 6004799503160661 / 18014398509481984"
  by (simp add: float_div_def Let_def floorlog_2_values round_half_even_numeral)

lemma round3_float_div_2_6: "round3 (float_div 2 6) = 333 / 1000"
  by (simp add: float_div_2_6 round3_def round_half_even_numeral)

section \<open>An example: one entry and a question about it\<close>

lemma reset_password_match:
  "find_relevant_faq
     [\<lparr>question = JStr ''reset password'', answer = JStr ''Go to settings'',
       tags = JArr [JStr ''account'']\<rparr>]
     (Some ''How do I reset my password?'') default_threshold
   = Inr (Some ''Go to settings'', 333 / 1000)"
proof -
  have q: "tokenize (Some ''How do I reset my password?'') = [''how'', ''do'', ''reset'', ''my'', ''password'']"
    by code_simp
  have c: "combined \<lparr>question = JStr ''reset password'', answer = JStr ''Go to settings'',
       tags = JArr [JStr ''account'']\<rparr> = Inr ''reset password Go to settings account''"
    by (simp add: combined_def)
  have t: "tokenize (Some ''reset password Go to settings account'')
      = [''reset'', ''password'', ''go'', ''to'', ''settings'', ''account'']"
    by code_simp
  have n: "card (set [''how'', ''do'', ''reset'', ''my'', ''password'']
                \<inter> set [''reset'', ''password'', ''go'', ''to'', ''settings'', ''account'']) = 2"
    "card (set [''reset'', ''password'', ''go'', ''to'', ''settings'', ''account'']) = 6"
    by code_simp+
  have s: "score (set [''how'', ''do'', ''reset'', ''my'', ''password''])
             (set [''reset'', ''password'', ''go'', ''to'', ''settings'', ''account''])
           = float_div 2 6"
    unfolding score_def n by simp
  have ne: "set [''how'', ''do'', ''reset'', ''my'', ''password''] \<noteq> {}"
    "set [''reset'', ''password'', ''go'', ''to'', ''settings'', ''account''] \<noteq> {}"
    by simp_all
  have pos: "0 < float_div 2 6" "default_threshold \<le> float_div 2 6"
    by (simp_all add: float_div_2_6 default_threshold_value)
  have loop: "faq_loop (set [''how'', ''do'', ''reset'', ''my'', ''password''])
      [\<lparr>question = JStr ''reset password'', answer = JStr ''Go to settings'',
       tags = JArr [JStr ''account'']\<rparr>] (0, None)
     = Inr (float_div 2 6, Some \<lparr>question = JStr ''reset password'', answer = JStr ''Go to settings'',
       tags = JArr [JStr ''account'']\<rparr>)"
    using ne(2) pos(1) by (simp only: faq_loop.simps c t s Let_def sum.case if_False if_True)
  show ?thesis
    unfolding find_relevant_faq_def q Let_def loop
    using ne(1) pos(2) by (simp add: round3_float_div_2_6)
qed

section \<open>The outcomes of \<^verbatim>\<open>/chat\<close>\<close>

lemma try_models_outcome:
  obtains
    (exhausted) d where
      "fst (try_models client sid query messages models None st) =
         Jsonify [(''error'', JStr ''AI backend failed''), (''detail'', d)] 500"
      "conversations (snd (try_models client sid query messages models None st)) = conversations st"
  | (answered) r m act where "m \<in> set models" "act = ''escalated'' \<or> act = ''responded''"
      "fst (try_models client sid query messages models None st) =
         Jsonify [(''response'', JStr r), (''source'', JStr (''llm:'' @ m)),
                  (''action'', JStr act), (''session_id'', JStr sid)] 200"
      "conversations (snd (try_models client sid query messages models None st)) =
         conversations st @
           [\<lparr>row_session_id = sid, row_role = ''user'', row_content = query\<rparr>,
            \<lparr>row_session_id = sid, row_role = ''assistant'', row_content = r\<rparr>]"
  using models_fail_or_succeed [of client messages models]
proof
  assume "\<exists>errs. map (\<lambda>m. client m messages) models = map Inl errs"
  then obtain errs where errs: "map (\<lambda>m. client m messages) models = map Inl errs" ..
  note run = try_models_all_fail [where client = client and messages = messages and models = models
      and errs = errs and sid = sid and query = query and last_error = None and st = st, OF errs]
  show ?thesis
    by (rule exhausted) (simp_all add: run)
next
  assume "\<exists>pre m post errs resp. models = pre @ m # post
         \<and> map (\<lambda>m. client m messages) pre = map Inl errs \<and> client m messages = Inr resp"
  then obtain pre m post errs resp where h: "models = pre @ m # post"
    "map (\<lambda>m. client m messages) pre = map Inl errs" "client m messages = Inr resp"
    by blast
  have m: "m \<in> set models"
    using h(1) by simp
  note run = try_models_first_success [where client = client and messages = messages and pre = pre
        and errs = errs and m = m and resp = resp and sid = sid and query = query
        and post = post and last_error = None and st = st, OF h(2,3), folded h(1)]
  show ?thesis
    by (rule answered [where m = m
          and r = "if contains ''ESCALATE_TO_AGENT'' (bot_reply_of resp)
                   then handoff_message else bot_reply_of resp"
          and act = "if contains ''ESCALATE_TO_AGENT'' (bot_reply_of resp)
                     then ''escalated'' else ''responded''"])
      (simp_all add: m run)
qed

lemma chat_outcome:
  obtains
    (no_query) "req_query req = None \<or> req_query req = Some []"
      "chat env req st = (Jsonify [(''error'', JStr ''No query provided'')] 400, st)"
  | (fault) e where "fst (chat env req st) = InternalServerError e"
      "conversations (snd (chat env req st)) = conversations st"
  | (exhausted) d where
      "fst (chat env req st) = Jsonify [(''error'', JStr ''AI backend failed''), (''detail'', d)] 500"
      "conversations (snd (chat env req st)) = conversations st"
  | (success) q r body where "req_query req = Some q" "q \<noteq> []"
      "fst (chat env req st) = Jsonify body 200"
      "conversations (snd (chat env req st)) =
         conversations st @
           [\<lparr>row_session_id = session_id_of (req_session_id req),
             row_role = ''user'', row_content = q\<rparr>,
            \<lparr>row_session_id = session_id_of (req_session_id req),
             row_role = ''assistant'', row_content = r\<rparr>]"
      "body = [(''response'', JStr r), (''source'', JStr ''rule-based''),
               (''action'', JStr ''escalated''),
               (''session_id'', JStr (session_id_of (req_session_id req)))]
       \<or> (\<exists>sc. body = [(''response'', JStr r), (''source'', JStr ''faq''),
                         (''match_score'', JNum sc), (''action'', JStr ''responded''),
                         (''session_id'', JStr (session_id_of (req_session_id req)))])
       \<or> (\<exists>m act. m \<in> set (model_fallbacks env)
             \<and> (act = ''escalated'' \<or> act = ''responded'')
             \<and> body = [(''response'', JStr r), (''source'', JStr (''llm:'' @ m)),
                        (''action'', JStr act),
                        (''session_id'', JStr (session_id_of (req_session_id req)))])"
proof (cases "req_query req")
  case None
  then show ?thesis by (intro no_query) (simp_all add: chat_def Let_def)
next
  case (Some q)
  show ?thesis
  proof (cases "q = []")
    case True
    with Some show ?thesis by (intro no_query) (simp_all add: chat_def Let_def)
  next
    case ne: False
    show ?thesis
    proof (cases "should_escalate (Some q)")
      case True
      with Some ne show ?thesis
        by (intro success [where q = q and r = handoff_message
              and body = "[(''response'', JStr handoff_message), (''source'', JStr ''rule-based''),
                           (''action'', JStr ''escalated''),
                           (''session_id'', JStr (session_id_of (req_session_id req)))]"])
          (simp_all add: chat_def Let_def save_message_def)
    next
      case esc: False
      show ?thesis
      proof (cases "find_relevant_faq (faq_list env) (Some q) default_threshold")
        case (Inl e)
        with Some ne esc show ?thesis
          by (intro fault [of e]) (simp_all add: chat_def Let_def)
      next
        case (Inr res)
        obtain a sc where res: "res = (a, sc)"
          by (cases res)
        show ?thesis
        proof (cases "a = None \<or> a = Some []")
          case False
          then obtain r where "a = Some r" "r \<noteq> []"
            by (cases a) auto
          with Some ne esc Inr res show ?thesis
            by (intro success [where q = q and r = r
                  and body = "[(''response'', JStr r), (''source'', JStr ''faq''),
                               (''match_score'', JNum sc), (''action'', JStr ''responded''),
                               (''session_id'', JStr (session_id_of (req_session_id req)))]"])
              (simp_all add: chat_def Let_def save_message_def)
        next
          case True
          have run: "chat env req st =
              try_models (create env) (session_id_of (req_session_id req)) q
                (build_messages (get_history (session_id_of (req_session_id req)) (conversations st)) q)
                (model_fallbacks env) None st"
            using chat_generate [OF ne esc Inr [unfolded res] True, of "req_session_id req" st] Some
            by (cases req) simp
          show ?thesis
          proof (cases rule: try_models_outcome [where client = "create env"
                and sid = "session_id_of (req_session_id req)" and query = q
                and messages = "build_messages (get_history (session_id_of (req_session_id req)) (conversations st)) q"
                and models = "model_fallbacks env" and st = st])
            case (exhausted d)
            then show ?thesis
              unfolding run [symmetric] by (rule that(3))
          next
            case (answered r m act)
            have b: "[(''response'', JStr r), (''source'', JStr (''llm:'' @ m)), (''action'', JStr act),
                      (''session_id'', JStr (session_id_of (req_session_id req)))]
                 = [(''response'', JStr r), (''source'', JStr ''rule-based''),
                    (''action'', JStr ''escalated''),
                    (''session_id'', JStr (session_id_of (req_session_id req)))]
               \<or> (\<exists>sc. [(''response'', JStr r), (''source'', JStr (''llm:'' @ m)), (''action'', JStr act),
                      (''session_id'', JStr (session_id_of (req_session_id req)))]
                    = [(''response'', JStr r), (''source'', JStr ''faq''),
                       (''match_score'', JNum sc), (''action'', JStr ''responded''),
                       (''session_id'', JStr (session_id_of (req_session_id req)))])
               \<or> (\<exists>m' act'. m' \<in> set (model_fallbacks env)
                     \<and> (act' = ''escalated'' \<or> act' = ''responded'')
                     \<and> [(''response'', JStr r), (''source'', JStr (''llm:'' @ m)), (''action'', JStr act),
                         (''session_id'', JStr (session_id_of (req_session_id req)))]
                       = [(''response'', JStr r), (''source'', JStr (''llm:'' @ m')),
                          (''action'', JStr act'),
                          (''session_id'', JStr (session_id_of (req_session_id req)))])"
              using answered(1,2) by blast
            show ?thesis
              by (rule that(4) [where q = q and r = r
                    and body = "[(''response'', JStr r), (''source'', JStr (''llm:'' @ m)),
                                 (''action'', JStr act),
                                 (''session_id'', JStr (session_id_of (req_session_id req)))]",
                    OF Some ne answered(3) [folded run] answered(4) [folded run] b])
          qed
        qed
      qed
    qed
  qed
qed

lemma reset_password_chat:
  "chat \<lparr>faq_list = [\<lparr>question = JStr ''reset password'', answer = JStr ''Go to settings'',
                        tags = JArr [JStr ''account'']\<rparr>],
          model_fallbacks = ms, create = c\<rparr>
     \<lparr>req_session_id = Some ''s1'', req_query = Some ''How do I reset my password?''\<rparr>
     \<lparr>conversations = [], logged = [], requests = []\<rparr>
   = (Jsonify [(''response'', JStr ''Go to settings''), (''source'', JStr ''faq''),
               (''match_score'', JNum (333 / 1000)), (''action'', JStr ''responded''),
               (''session_id'', JStr ''s1'')] 200,
      \<lparr>conversations =
         [\<lparr>row_session_id = ''s1'', row_role = ''user'',
           row_content = ''How do I reset my password?''\<rparr>,
          \<lparr>row_session_id = ''s1'', row_role = ''assistant'', row_content = ''Go to settings''\<rparr>],
       logged = [], requests = []\<rparr>)"
proof -
  have ne: "\<not> should_escalate (Some ''How do I reset my password?'')"
    by code_simp
  show ?thesis
    using ne by (simp add: chat_def Let_def reset_password_match session_id_of_def save_message_def)
qed

text \<open>
  C1. A call of \<^verbatim>\<open>/chat\<close> that succeeds (status 200: the escalated, the FAQ and the
  generative branch) appends exactly two rows for its session, the user's query and then
  the assistant's reply, which is the response returned. A call without a query answers
  \<^verbatim>\<open>No query provided\<close> and changes nothing; a call that ends with
  \<^verbatim>\<open>AI backend failed\<close> appends nothing. Every call appends either nothing or these two
  rows.
\<close>

theorem chat_appends_pair_or_nothing:
  "(\<forall>fields. fst (chat env req st) = Jsonify fields 200 \<longrightarrow>
      (\<exists>q r. req_query req = Some q \<and> map_of fields ''response'' = Some (JStr r)
         \<and> conversations (snd (chat env req st)) =
              conversations st @
                [\<lparr>row_session_id = session_id_of (req_session_id req),
                  row_role = ''user'', row_content = q\<rparr>,
                 \<lparr>row_session_id = session_id_of (req_session_id req),
                  row_role = ''assistant'', row_content = r\<rparr>]))
   \<and> ((req_query req = None \<or> req_query req = Some []) \<longrightarrow>
         chat env req st = (Jsonify [(''error'', JStr ''No query provided'')] 400, st))
   \<and> (\<forall>d. fst (chat env req st) =
             Jsonify [(''error'', JStr ''AI backend failed''), (''detail'', d)] 500 \<longrightarrow>
           conversations (snd (chat env req st)) = conversations st)
   \<and> (conversations (snd (chat env req st)) = conversations st
        \<or> (\<exists>q r. req_query req = Some q
              \<and> conversations (snd (chat env req st)) =
                   conversations st @
                     [\<lparr>row_session_id = session_id_of (req_session_id req),
                       row_role = ''user'', row_content = q\<rparr>,
                      \<lparr>row_session_id = session_id_of (req_session_id req),
                       row_role = ''assistant'', row_content = r\<rparr>]))"
proof (cases rule: chat_outcome [where req = req and env = env and st = st])
  case no_query
  then show ?thesis by auto
next
  case (fault e)
  then show ?thesis by (auto simp: chat_def Let_def)
next
  case (exhausted d)
  then show ?thesis by (auto simp: chat_def Let_def)
next
  case (success q r body)
  from success(5) have "map_of body ''response'' = Some (JStr r)"
    by auto
  with success(1-4) show ?thesis by simp
qed

theorem chat_appends_pair_or_nothing_witness:
  "fst (chat \<lparr>faq_list = [\<lparr>question = JStr ''reset password'', answer = JStr ''Go to settings'',
                             tags = JArr [JStr ''account'']\<rparr>],
               model_fallbacks = [], create = (\<lambda>m ms. Inl [])\<rparr>
          \<lparr>req_session_id = Some ''s1'', req_query = Some ''How do I reset my password?''\<rparr>
          \<lparr>conversations = [], logged = [], requests = []\<rparr>)
     = Jsonify [(''response'', JStr ''Go to settings''), (''source'', JStr ''faq''),
                (''match_score'', JNum (333 / 1000)), (''action'', JStr ''responded''),
                (''session_id'', JStr ''s1'')] 200
   \<and> conversations (snd (chat \<lparr>faq_list = [\<lparr>question = JStr ''reset password'',
                                              answer = JStr ''Go to settings'',
                                              tags = JArr [JStr ''account'']\<rparr>],
               model_fallbacks = [], create = (\<lambda>m ms. Inl [])\<rparr>
          \<lparr>req_session_id = Some ''s1'', req_query = Some ''How do I reset my password?''\<rparr>
          \<lparr>conversations = [], logged = [], requests = []\<rparr>))
     = [\<lparr>row_session_id = ''s1'', row_role = ''user'',
         row_content = ''How do I reset my password?''\<rparr>,
        \<lparr>row_session_id = ''s1'', row_role = ''assistant'', row_content = ''Go to settings''\<rparr>]
   \<and> chat \<lparr>faq_list = [], model_fallbacks = [], create = (\<lambda>m ms. Inl [])\<rparr>
          \<lparr>req_session_id = None, req_query = None\<rparr>
          \<lparr>conversations = [], logged = [], requests = []\<rparr>
     = (Jsonify [(''error'', JStr ''No query provided'')] 400,
        \<lparr>conversations = [], logged = [], requests = []\<rparr>)
   \<and> fst (chat \<lparr>faq_list = [], model_fallbacks = [], create = (\<lambda>m ms. Inl [])\<rparr>
          \<lparr>req_session_id = None, req_query = Some ''hello there''\<rparr>
          \<lparr>conversations = [], logged = [], requests = []\<rparr>)
     = Jsonify [(''error'', JStr ''AI backend failed''), (''detail'', JNull)] 500
   \<and> conversations (snd (chat \<lparr>faq_list = [], model_fallbacks = [], create = (\<lambda>m ms. Inl [])\<rparr>
          \<lparr>req_session_id = None, req_query = Some ''hello there''\<rparr>
          \<lparr>conversations = [], logged = [], requests = []\<rparr>)) = []"
proof -
  have ne: "\<not> should_escalate (Some ''hello there'')"
    by code_simp
  have bad: "fst (chat \<lparr>faq_list = [], model_fallbacks = [], create = (\<lambda>m ms. Inl [])\<rparr>
          \<lparr>req_session_id = None, req_query = Some ''hello there''\<rparr>
          \<lparr>conversations = [], logged = [], requests = []\<rparr>)
     = Jsonify [(''error'', JStr ''AI backend failed''), (''detail'', JNull)] 500"
    using ne by (simp add: chat_def Let_def find_relevant_faq_no_entries generate_def)
  show ?thesis
    using chat_appends_pair_or_nothing
      [of "\<lparr>faq_list = [\<lparr>question = JStr ''reset password'', answer = JStr ''Go to settings'',
                             tags = JArr [JStr ''account'']\<rparr>],
               model_fallbacks = [], create = (\<lambda>m ms. Inl [])\<rparr>"
          "\<lparr>req_session_id = Some ''s1'', req_query = Some ''How do I reset my password?''\<rparr>"
          "\<lparr>conversations = [], logged = [], requests = []\<rparr>"]
      chat_appends_pair_or_nothing
      [of "\<lparr>faq_list = [], model_fallbacks = [], create = (\<lambda>m ms. Inl [])\<rparr>"
          "\<lparr>req_session_id = None, req_query = None\<rparr>"
          "\<lparr>conversations = [], logged = [], requests = []\<rparr>"]
      chat_appends_pair_or_nothing
      [of "\<lparr>faq_list = [], model_fallbacks = [], create = (\<lambda>m ms. Inl [])\<rparr>"
          "\<lparr>req_session_id = None, req_query = Some ''hello there''\<rparr>"
          "\<lparr>conversations = [], logged = [], requests = []\<rparr>"]
      bad
    by (simp add: reset_password_chat session_id_of_def)
qed

text \<open>
  C7, as amended. The body of a successful response has the four fields \<^verbatim>\<open>response\<close>,
  \<^verbatim>\<open>source\<close>, \<^verbatim>\<open>action\<close> and \<^verbatim>\<open>session_id\<close>, the source being \<^verbatim>\<open>rule-based\<close> or
  \<^verbatim>\<open>llm:\<close> followed by a configured model and the action \<^verbatim>\<open>escalated\<close> or
  \<^verbatim>\<open>responded\<close>; or it is the response of the FAQ branch, which has these four fields
  with the source \<^verbatim>\<open>faq\<close> and the action \<^verbatim>\<open>responded\<close>, and a fifth, \<^verbatim>\<open>match_score\<close>.
\<close>

theorem success_fields:
  assumes "fst (chat env req st) = Jsonify body 200"
  shows "(\<exists>r src act.
            body = [(''response'', JStr r), (''source'', JStr src), (''action'', JStr act),
                      (''session_id'', JStr (session_id_of (req_session_id req)))]
            \<and> (src = ''rule-based'' \<or> (\<exists>m \<in> set (model_fallbacks env). src = ''llm:'' @ m))
            \<and> (act = ''escalated'' \<or> act = ''responded''))
         \<or> (\<exists>r sc.
            body = [(''response'', JStr r), (''source'', JStr ''faq''),
                      (''match_score'', JNum sc), (''action'', JStr ''responded''),
                      (''session_id'', JStr (session_id_of (req_session_id req)))])"
proof (cases rule: chat_outcome [where req = req and env = env and st = st])
  case no_query
  with assms show ?thesis by simp
next
  case (fault e)
  with assms show ?thesis by simp
next
  case (exhausted d)
  with assms show ?thesis by simp
next
  case (success q r b)
  from success(3) assms have "b = body"
    by simp
  with success(5) show ?thesis by blast
qed

theorem success_fields_witness:
  "fst (chat \<lparr>faq_list = [], model_fallbacks = [], create = (\<lambda>m ms. Inl [])\<rparr>
          \<lparr>req_session_id = Some ''s1'', req_query = Some ''kill the process''\<rparr>
          \<lparr>conversations = [], logged = [], requests = []\<rparr>)
     = Jsonify [(''response'', JStr handoff_message), (''source'', JStr ''rule-based''),
                (''action'', JStr ''escalated''), (''session_id'', JStr ''s1'')] 200
   \<and> ((\<exists>r src act.
            [(''response'', JStr handoff_message), (''source'', JStr ''rule-based''),
             (''action'', JStr ''escalated''), (''session_id'', JStr ''s1'')]
              = [(''response'', JStr r), (''source'', JStr src), (''action'', JStr act),
                 (''session_id'', JStr ''s1'')]
            \<and> (src = ''rule-based'' \<or> (\<exists>m \<in> set []. src = ''llm:'' @ m))
            \<and> (act = ''escalated'' \<or> act = ''responded''))
        \<or> (\<exists>r sc.
            [(''response'', JStr handoff_message), (''source'', JStr ''rule-based''),
             (''action'', JStr ''escalated''), (''session_id'', JStr ''s1'')]
              = [(''response'', JStr r), (''source'', JStr ''faq''),
                 (''match_score'', JNum sc), (''action'', JStr ''responded''),
                 (''session_id'', JStr ''s1'')]))"
proof -
  have esc: "should_escalate (Some ''kill the process'')"
    by code_simp
  have run: "fst (chat \<lparr>faq_list = [], model_fallbacks = [], create = (\<lambda>m ms. Inl [])\<rparr>
          \<lparr>req_session_id = Some ''s1'', req_query = Some ''kill the process''\<rparr>
          \<lparr>conversations = [], logged = [], requests = []\<rparr>)
     = Jsonify [(''response'', JStr handoff_message), (''source'', JStr ''rule-based''),
                (''action'', JStr ''escalated''), (''session_id'', JStr ''s1'')] 200"
    using esc by (simp add: chat_def Let_def session_id_of_def)
  show ?thesis
    using success_fields [OF run] run by (simp add: session_id_of_def)
qed

text \<open>
  C7 as stated fails: the response of the FAQ branch has five fields.
\<close>

theorem faq_response_has_match_score:
  "fst (chat \<lparr>faq_list = [\<lparr>question = JStr ''reset password'', answer = JStr ''Go to settings'',
                             tags = JArr [JStr ''account'']\<rparr>],
               model_fallbacks = MODEL_FALLBACKS, create = (\<lambda>m ms. Inl [])\<rparr>
          \<lparr>req_session_id = Some ''s1'', req_query = Some ''How do I reset my password?''\<rparr>
          \<lparr>conversations = [], logged = [], requests = []\<rparr>)
     = Jsonify [(''response'', JStr ''Go to settings''), (''source'', JStr ''faq''),
                (''match_score'', JNum (333 / 1000)), (''action'', JStr ''responded''),
                (''session_id'', JStr ''s1'')] 200"
  by (simp add: reset_password_chat)

section \<open>The matcher\<close>

lemma strs_of_map_JStr: "strs_of (map JStr ss) = Inr ss"
  by (induction ss) simp_all

lemma combined_faq_of:
  "combined (faq_of e) =
     Inr (entry_question e @ '' '' @ entry_answer e @ '' '' @ join (entry_tags e))"
  by (simp add: combined_def faq_of_def strs_of_map_JStr)

lemma Max_Cons_less:
  assumes "y \<in> set xs" and "f x < f y"
  shows "Max (f ` set (x # xs)) = Max (f ` set xs)"
proof -
  have "f y \<le> Max (f ` set xs)"
    using assms(1) by (intro Max_ge) auto
  with assms(2) have "f x < Max (f ` set xs)"
    by (rule less_le_trans)
  moreover have "f ` set xs \<noteq> {}"
    using assms(1) by auto
  then have "Max (f ` set (x # xs)) = max (f x) (Max (f ` set xs))"
    by simp
  ultimately show ?thesis
    by (auto simp: max_def)
qed

lemma Max_Cons_ge:
  assumes "\<forall>y \<in> set xs. f y \<le> f x"
  shows "Max (f ` set (x # xs)) = f x"
  using assms by (intro Max_eqI) auto

lemma first_best_Cons:
  "first_best f (x # xs) =
     (if \<forall>y \<in> set xs. f y \<le> f x then Some x else first_best f xs)"
proof (cases "\<forall>y \<in> set xs. f y \<le> f x")
  case True
  then show ?thesis
    unfolding first_best_def Max_Cons_ge [OF True] if_P [OF True] by simp
next
  case False
  then obtain y where y: "y \<in> set xs" "f x < f y"
    by (auto simp: not_le)
  have "f y \<le> Max (f ` set xs)"
    using y(1) by (intro Max_ge) auto
  with y(2) have "f x \<noteq> Max (f ` set xs)"
    by auto
  moreover have "xs \<noteq> []"
    using y(1) by auto
  ultimately show ?thesis
    unfolding first_best_def Max_Cons_less [OF y] if_not_P [OF False] by simp
qed

lemma first_best_max:
  "first_best f xs = Some b \<Longrightarrow> f b = Max (f ` set xs) \<and> b \<in> set xs"
  by (auto simp: first_best_def find_Some_iff split: if_splits)

lemma faq_loop_Cons:
  "faq_loop Q (faq_of e # fs) (bs, bf) =
     (if entry_tokens e = {} then faq_loop Q fs (bs, bf)
      else if score Q (entry_tokens e) > bs
           then faq_loop Q fs (score Q (entry_tokens e), Some (faq_of e))
           else faq_loop Q fs (bs, bf))"
  by (simp add: combined_faq_of entry_tokens_def Let_def)

text \<open>The loop leaves the accumulator as it is when no entry scores more than it.\<close>

lemma faq_loop_keeps:
  "\<forall>e \<in> set (filter (\<lambda>e. entry_tokens e \<noteq> {}) es). score Q (entry_tokens e) \<le> bs \<Longrightarrow>
   faq_loop Q (map faq_of es) (bs, bf) = Inr (bs, bf)"
proof (induction es)
  case Nil
  then show ?case by simp
next
  case (Cons e es)
  then have ih: "faq_loop Q (map faq_of es) (bs, bf) = Inr (bs, bf)"
    by simp
  have "entry_tokens e \<noteq> {} \<Longrightarrow> \<not> bs < score Q (entry_tokens e)"
    using Cons.prems by (simp add: not_less)
  then show ?case
    by (simp add: ih faq_loop_Cons del: faq_loop.simps)
qed

text \<open>
  Otherwise it ends with the greatest score and the first entry that has it.
\<close>

lemma faq_loop_first_best:
  "\<exists>e \<in> set (filter (\<lambda>e. entry_tokens e \<noteq> {}) es). bs < score Q (entry_tokens e) \<Longrightarrow>
   faq_loop Q (map faq_of es) (bs, bf) =
     Inr (Max ((\<lambda>e. score Q (entry_tokens e)) ` set (filter (\<lambda>e. entry_tokens e \<noteq> {}) es)),
          map_option faq_of
            (first_best (\<lambda>e. score Q (entry_tokens e)) (filter (\<lambda>e. entry_tokens e \<noteq> {}) es)))"
proof (induction es arbitrary: bs bf)
  case Nil
  then show ?case by simp
next
  case (Cons e es)
  let ?sc = "\<lambda>e. score Q (entry_tokens e)"
  let ?cs = "filter (\<lambda>e. entry_tokens e \<noteq> {}) es"
  show ?case
  proof (cases "entry_tokens e = {}")
    case True
    with Cons.prems have "\<exists>e \<in> set ?cs. bs < ?sc e"
      by simp
    from Cons.IH [OF this, of bf] True show ?thesis
      by (simp add: faq_loop_Cons del: faq_loop.simps)
  next
    case ne: False
    then have cs: "filter (\<lambda>e. entry_tokens e \<noteq> {}) (e # es) = e # ?cs"
      by simp
    show ?thesis
    proof (cases "bs < ?sc e")
      case gt: True
      have step: "faq_loop Q (map faq_of (e # es)) (bs, bf) =
          faq_loop Q (map faq_of es) (?sc e, Some (faq_of e))"
        using ne gt by (simp add: faq_loop_Cons del: faq_loop.simps)
      show ?thesis
      proof (cases "\<forall>y \<in> set ?cs. ?sc y \<le> ?sc e")
        case True
        show ?thesis
          unfolding step cs faq_loop_keeps [OF True] Max_Cons_ge [of ?cs ?sc e, OF True]
            first_best_Cons if_P [OF True]
          by simp
      next
        case False
        then obtain y where y: "y \<in> set ?cs" "?sc e < ?sc y"
          by (auto simp: not_le)
        then have ex: "\<exists>y \<in> set ?cs. ?sc e < ?sc y"
          by blast
        show ?thesis
          unfolding step cs Cons.IH [OF ex] Max_Cons_less [of y ?cs ?sc e, OF y] first_best_Cons
            if_not_P [OF False]
          by simp
      qed
    next
      case le: False
      have step: "faq_loop Q (map faq_of (e # es)) (bs, bf) = faq_loop Q (map faq_of es) (bs, bf)"
        using ne le by (simp add: faq_loop_Cons del: faq_loop.simps)
      from Cons.prems le obtain y where y: "y \<in> set ?cs" "bs < ?sc y"
        unfolding cs by auto
      then have ex: "\<exists>y \<in> set ?cs. bs < ?sc y"
        by blast
      have lt: "?sc e < ?sc y"
        using le y(2) by simp
      then have nall: "\<not> (\<forall>z \<in> set ?cs. ?sc z \<le> ?sc e)"
        using y(1) by (auto simp: not_le)
      show ?thesis
        unfolding step cs Cons.IH [OF ex] Max_Cons_less [of y ?cs ?sc e, OF y(1) lt] first_best_Cons
          if_not_P [OF nall]
        by simp
    qed
  qed
qed

lemma first_best_Some: "xs \<noteq> [] \<Longrightarrow> \<exists>b. first_best f xs = Some b"
proof -
  assume ne: "xs \<noteq> []"
  then have "Max (f ` set xs) \<in> f ` set xs"
    by (intro Max_in) auto
  then obtain x where "x \<in> set xs" "f x = Max (f ` set xs)"
    by auto
  then have "find (\<lambda>x. f x = Max (f ` set xs)) xs \<noteq> None"
    by (auto simp: find_None_iff)
  with ne show ?thesis
    by (auto simp: first_best_def)
qed

lemma round_half_even_close: "\<bar>of_int (round_half_even y) - y\<bar> \<le> 1 / 2"
proof -
  have "of_int \<lfloor>y\<rfloor> \<le> y" "y < of_int \<lfloor>y\<rfloor> + 1"
    by linarith+
  then show ?thesis
    unfolding round_half_even_def Let_def by (auto simp: abs_le_iff)
qed

lemma float_div_close:
  assumes "0 < b"
  shows "\<bar>float_div a b - of_nat a / of_nat b\<bar> \<le> 1 / 2 ^ 53"
proof (cases "a = 0")
  case True
  then show ?thesis by (simp add: float_div_def)
next
  case False
  define e1 where "e1 = 52 + (floorlog 2 b - floorlog 2 a)"
  define e where "e = (if 2 ^ 52 * b \<le> a * 2 ^ e1 then e1 else e1 + 1)"
  define y :: rat where "y = of_nat (a * 2 ^ e) / of_nat b"
  have fd: "float_div a b = of_int (round_half_even y) / 2 ^ e"
    using False by (simp add: float_div_def Let_def e1_def e_def y_def)
  have e52: "52 \<le> e"
    by (simp add: e_def e1_def)
  have y: "of_nat a / of_nat b = y / 2 ^ e"
    using assms by (simp add: y_def)
  have "\<bar>float_div a b - of_nat a / of_nat b\<bar> = \<bar>of_int (round_half_even y) - y\<bar> / 2 ^ e"
    unfolding fd y by (simp add: diff_divide_distrib [symmetric])
  also have "\<dots> \<le> (1 / 2) / 2 ^ e"
    by (intro divide_right_mono round_half_even_close) simp
  also have "\<dots> = 1 / 2 ^ (e + 1)"
    by simp
  also have "\<dots> \<le> 1 / 2 ^ 53"
    using e52 by (intro divide_left_mono power_increasing) simp_all
  finally show ?thesis .
qed

lemma round3_close: "\<bar>round3 x - x\<bar> \<le> 1 / 2000"
proof -
  have "round3 x - x = (of_int (round_half_even (1000 * x)) - 1000 * x) / 1000"
    by (simp add: round3_def field_simps)
  then have "\<bar>round3 x - x\<bar> = \<bar>of_int (round_half_even (1000 * x)) - 1000 * x\<bar> / 1000"
    by (metis abs_divide abs_numeral)
  also have "\<dots> \<le> (1 / 2) / 1000"
    by (intro divide_right_mono round_half_even_close) simp
  finally show ?thesis by simp
qed

lemma default_threshold_pos: "0 < default_threshold"
  by (simp add: default_threshold_value)

text \<open>
  C3. For a positive threshold, the default among them, and a list of entries of the data
  model, \<^verbatim>\<open>find_relevant_faq\<close> returns what the matcher of the specification returns:
  none when the query has no tokens; otherwise, among the entries with tokens, the first one
  with the greatest score \<open>|Q \<inter> T| / max(1, |T|)\<close>, with its answer and the score rounded
  to three places if the score is at least the threshold, and none if not. The score is the
  double nearest to the quotient, so within \<open>1 / 2 ^ 53\<close> of it; the rounded score is within half
  a thousandth of the score; the default threshold is the double that \<^verbatim>\<open>0.3\<close> denotes.
\<close>

theorem find_relevant_faq_refines_spec:
  assumes "0 < threshold"
  shows "find_relevant_faq (map faq_of entries) query threshold =
           Inr (case matcher_spec entries query threshold of
                  None \<Rightarrow> (None, 0)
                | Some (a, s) \<Rightarrow> (Some a, s))
         \<and> \<bar>score Q T - of_nat (card (Q \<inter> T)) / of_nat (max 1 (card T))\<bar> \<le> 1 / 2 ^ 53
         \<and> \<bar>round3 x - x\<bar> \<le> 1 / 2000
         \<and> default_threshold = 5404319552844595 / 18014398509481984"
proof -
  let ?Q = "set (tokenize query)"
  let ?sc = "\<lambda>e. score ?Q (entry_tokens e)"
  let ?cs = "filter (\<lambda>e. entry_tokens e \<noteq> {}) entries"
  have main: "find_relevant_faq (map faq_of entries) query threshold =
           Inr (case matcher_spec entries query threshold of
                  None \<Rightarrow> (None, 0)
                | Some (a, s) \<Rightarrow> (Some a, s))"
  proof (cases "?Q = {}")
    case True
    then show ?thesis
      by (simp add: find_relevant_faq_def matcher_spec_def)
  next
    case ne: False
    show ?thesis
    proof (cases "\<exists>e \<in> set ?cs. 0 < ?sc e")
      case some: True
      then obtain e where "e \<in> set ?cs"
        by blast
      then have "?cs \<noteq> []"
        by (metis list.set(1) empty_iff)
      then obtain b where b: "first_best ?sc ?cs = Some b"
        using first_best_Some by blast
      then have mx: "Max (?sc ` set ?cs) = ?sc b"
        using first_best_max [OF b] by simp
      have loop: "faq_loop ?Q (map faq_of entries) (0, None) = Inr (?sc b, Some (faq_of b))"
        unfolding faq_loop_first_best [OF some] b mx by simp
      have code: "find_relevant_faq (map faq_of entries) query threshold =
          (if threshold \<le> ?sc b then Inr (Some (entry_answer b), round3 (?sc b)) else Inr (None, 0))"
        using ne unfolding find_relevant_faq_def Let_def loop by (simp add: faq_of_def)
      have spec: "matcher_spec entries query threshold =
          (if threshold \<le> ?sc b then Some (entry_answer b, round3 (?sc b)) else None)"
        using ne unfolding matcher_spec_def Let_def b by simp
      show ?thesis
        unfolding code spec by simp
    next
      case none: False
      then have le: "\<forall>e \<in> set ?cs. ?sc e \<le> 0"
        by (auto simp: not_less)
      have code: "find_relevant_faq (map faq_of entries) query threshold = Inr (None, 0)"
        using ne unfolding find_relevant_faq_def Let_def faq_loop_keeps [OF le] by simp
      have spec: "matcher_spec entries query threshold = None"
      proof (cases "first_best ?sc ?cs")
        case None
        then show ?thesis
          using ne unfolding matcher_spec_def Let_def by simp
      next
        case (Some b)
        from first_best_max [OF Some] le have "?sc b \<le> 0"
          by blast
        with assms have "\<not> threshold \<le> ?sc b"
          by simp
        then show ?thesis
          using ne unfolding matcher_spec_def Let_def Some by simp
      qed
      show ?thesis
        unfolding code spec by simp
    qed
  qed
  have "\<bar>score Q T - of_nat (card (Q \<inter> T)) / of_nat (max 1 (card T))\<bar> \<le> 1 / 2 ^ 53"
    unfolding score_def by (rule float_div_close) simp
  with main round3_close default_threshold_value show ?thesis
    by blast
qed

theorem find_relevant_faq_refines_spec_witness:
  "0 < default_threshold
   \<and> find_relevant_faq
       (map faq_of [\<lparr>entry_question = ''reset password'', entry_answer = ''Go to settings'',
                     entry_tags = [''account'']\<rparr>])
       (Some ''How do I reset my password?'') default_threshold
     = Inr (Some ''Go to settings'', 333 / 1000)
   \<and> matcher_spec [\<lparr>entry_question = ''reset password'', entry_answer = ''Go to settings'',
                     entry_tags = [''account'']\<rparr>]
       (Some ''How do I reset my password?'') default_threshold
     = Some (''Go to settings'', 333 / 1000)"
proof -
  have run: "find_relevant_faq
       (map faq_of [\<lparr>entry_question = ''reset password'', entry_answer = ''Go to settings'',
                     entry_tags = [''account'']\<rparr>])
       (Some ''How do I reset my password?'') default_threshold
     = Inr (Some ''Go to settings'', 333 / 1000)"
    using reset_password_match by (simp add: faq_of_def)
  have "Inr (Some ''Go to settings'', 333 / 1000) =
      (Inr (case matcher_spec [\<lparr>entry_question = ''reset password'',
                                entry_answer = ''Go to settings'', entry_tags = [''account'']\<rparr>]
                   (Some ''How do I reset my password?'') default_threshold of
              None \<Rightarrow> (None, 0)
            | Some (a, s) \<Rightarrow> (Some a, s)) :: py_error + string option \<times> rat)"
    using find_relevant_faq_refines_spec [OF default_threshold_pos,
        of "[\<lparr>entry_question = ''reset password'', entry_answer = ''Go to settings'',
                     entry_tags = [''account'']\<rparr>]" "Some ''How do I reset my password?''",
        THEN conjunct1]
    unfolding run .
  then have "matcher_spec [\<lparr>entry_question = ''reset password'',
                                entry_answer = ''Go to settings'', entry_tags = [''account'']\<rparr>]
                   (Some ''How do I reset my password?'') default_threshold
      = Some (''Go to settings'', 333 / 1000)"
    by (cases "matcher_spec [\<lparr>entry_question = ''reset password'',
                                entry_answer = ''Go to settings'', entry_tags = [''account'']\<rparr>]
                   (Some ''How do I reset my password?'') default_threshold") auto
  with run default_threshold_pos show ?thesis
    by simp
qed

section \<open>The loader\<close>


text \<open>A list of entries of the data model, written as JSON, loads as these entries.\<close>

lemma load_items_entries:
  "load_items (map (\<lambda>e. JObj [(''question'', JStr (entry_question e)),
                              (''answer'', JStr (entry_answer e)),
                              (''tags'', JArr (map JStr (entry_tags e)))]) es) faqs
   = Inr (faqs @ map faq_of es)"
proof (induction es arbitrary: faqs)
  case Nil
  then show ?case by simp
next
  case (Cons e es)
  have "faq_of_item (JObj [(''question'', JStr (entry_question e)),
                           (''answer'', JStr (entry_answer e)),
                           (''tags'', JArr (map JStr (entry_tags e)))]) = Inr (faq_of e)"
    by (cases "entry_tags e") (simp_all add: get_def faq_of_def)
  then show ?case
    using Cons.IH [of "faqs @ [faq_of e]"] by simp
qed

lemma load_faqs_entries:
  "load_faqs (Inr (JArr (map (\<lambda>e. JObj [(''question'', JStr (entry_question e)),
                                          (''answer'', JStr (entry_answer e)),
                                          (''tags'', JArr (map JStr (entry_tags e)))]) es)))
   = (Inr (map faq_of es), [])"
  by (simp add: load_faqs_def load_items_entries)

text \<open>
  A list with an element that is not an object makes \<^verbatim>\<open>item.get\<close> raise, outside the
  \<^verbatim>\<open>try\<close>.
\<close>

lemma load_faqs_non_object_item:
  "load_faqs (Inr (JArr (JObj item # JNum n # items))) = (Inl AttributeError, [])"
  by (simp add: load_faqs_def)


end
